theory Spec2Isabelle
  imports Complex_Main "HOL-Library.AList"
begin

section \<open>Python text\<close>

text \<open>
  A Python \<open>str\<close> is a sequence of code points. It is modelled as a \<open>string\<close> whose
  characters stand for the code points below 256; the character classes below are the ones
  Python's \<open>str.isspace\<close>, \<open>\d\<close>, \<open>\w\<close> and \<open>str.lower\<close> have on that range.
  Python floats are modelled as exact reals.
\<close>

definition code :: "char \<Rightarrow> nat" where
  "code c = of_char c"

definition is_space :: "char \<Rightarrow> bool" where
  "is_space c = (let n = code c in (9 \<le> n \<and> n \<le> 13) \<or> (28 \<le> n \<and> n \<le> 32) \<or> n = 133 \<or> n = 160)"

definition is_digit :: "char \<Rightarrow> bool" where
  "is_digit c = (let n = code c in 48 \<le> n \<and> n \<le> 57)"

definition is_word :: "char \<Rightarrow> bool" where
  "is_word c = (let n = code c in
     (48 \<le> n \<and> n \<le> 57) \<or> (65 \<le> n \<and> n \<le> 90) \<or> n = 95 \<or> (97 \<le> n \<and> n \<le> 122)
     \<or> n = 170 \<or> n = 178 \<or> n = 179 \<or> n = 181 \<or> n = 185 \<or> n = 186
     \<or> (188 \<le> n \<and> n \<le> 190) \<or> (192 \<le> n \<and> n \<le> 214) \<or> (216 \<le> n \<and> n \<le> 246)
     \<or> (248 \<le> n \<and> n \<le> 255))"

definition lower_char :: "char \<Rightarrow> char" where
  "lower_char c = (let n = code c in
     if (65 \<le> n \<and> n \<le> 90) \<or> (192 \<le> n \<and> n \<le> 214) \<or> (216 \<le> n \<and> n \<le> 222)
     then char_of (n + 32) else c)"

definition lower :: "string \<Rightarrow> string" where
  "lower s = map lower_char s"

text \<open>\<open>s.strip()\<close>: whitespace removed at both ends.\<close>

definition strip :: "string \<Rightarrow> string" where
  "strip s = rev (dropWhile is_space (rev (dropWhile is_space s)))"

text \<open>\<open>s.split()\<close>: the maximal runs of non-whitespace characters, in order.\<close>

fun split_ws :: "string \<Rightarrow> string \<Rightarrow> string list" where
  "split_ws cur [] = (if cur = [] then [] else [cur])"
| "split_ws cur (c # cs) =
     (if is_space c then (if cur = [] then split_ws [] cs else cur # split_ws [] cs)
      else split_ws (cur @ [c]) cs)"

definition split :: "string \<Rightarrow> string list" where
  "split s = split_ws [] s"

text \<open>
  \<open>s[a:b]\<close> with Python's treatment of negative and out-of-range bounds, and
  \<open>s[:k]\<close> for lists.
\<close>

definition norm_index :: "nat \<Rightarrow> int \<Rightarrow> nat" where
  "norm_index n i = (if i < 0 then nat (max 0 (int n + i)) else min n (nat i))"

definition slice :: "'a list \<Rightarrow> int \<Rightarrow> int \<Rightarrow> 'a list" where
  "slice xs a b = (let lo = norm_index (length xs) a; hi = norm_index (length xs) b
                   in take (hi - lo) (drop lo xs))"

definition prefix_to :: "'a list \<Rightarrow> int \<Rightarrow> 'a list" where
  "prefix_to xs k = slice xs 0 k"

text \<open>\<open>hay.find(needle)\<close>: the lowest index of an occurrence, \<open>None\<close> for Python's -1.\<close>

fun starts_with :: "string \<Rightarrow> string \<Rightarrow> bool" where
  "starts_with hay [] = True"
| "starts_with [] (n # ns) = False"
| "starts_with (h # hs) (n # ns) = (if h = n then starts_with hs ns else False)"

fun find_from :: "string \<Rightarrow> string \<Rightarrow> nat \<Rightarrow> nat option" where
  "find_from [] needle pos = (if needle = [] then Some pos else None)"
| "find_from (h # hs) needle pos =
     (if starts_with (h # hs) needle then Some pos else find_from hs needle (Suc pos))"

definition find_str :: "string \<Rightarrow> string \<Rightarrow> nat option" where
  "find_str hay needle = find_from hay needle 0"

text \<open>
  \<open>hay.rfind(sep, a, b)\<close>: the highest index \<open>i\<close> with \<open>a \<le> i\<close> and
  \<open>i + len(sep) \<le> b\<close> (bounds normalised as for slices) at which \<open>sep\<close> occurs,
  -1 if there is none.
\<close>

definition rfind_str :: "string \<Rightarrow> string \<Rightarrow> int \<Rightarrow> int \<Rightarrow> int" where
  "rfind_str hay sep a b =
     (let lo = norm_index (length hay) a; hi = norm_index (length hay) b
      in case List.find (\<lambda>i. lo \<le> i \<and> i + length sep \<le> hi \<and> starts_with (drop i hay) sep)
                (rev [0..<Suc (length hay)]) of
           Some i \<Rightarrow> int i
         | None \<Rightarrow> - 1)"

text \<open>\<open>str(n)\<close> for an integer.\<close>

definition digit_char :: "nat \<Rightarrow> char" where
  "digit_char n = char_of (48 + n)"

function str_nat :: "nat \<Rightarrow> string" where
  "str_nat n = (if n < 10 then [digit_char n] else str_nat (n div 10) @ [digit_char (n mod 10)])"
  by pat_completeness auto
termination
  by (relation "measure id") auto

definition str_int :: "int \<Rightarrow> string" where
  "str_int i = (if i < 0 then CHR ''-'' # str_nat (nat (- i)) else str_nat (nat i))"

section \<open>Regular expressions\<close>

text \<open>
  The fragment of Python's \<open>re\<close> that the patterns of the program use. A literal is
  matched ignoring case: every pattern containing letters is compiled with
  \<open>re.IGNORECASE\<close>. \<open>Rep c lo hi\<close> is the greedy repetition \<open>c{lo,hi}\<close> of a
  character class (\<open>hi = None\<close> for unbounded), \<open>WB\<close> is \<open>\b\<close>.

  The matcher works on a cursor: the character before the current position (\<open>None\<close> at
  the start of the text) and the text from the position on.
\<close>

datatype cclass = Digit | Word | Space | OneOf string

datatype rx = Lit string | Rep cclass nat "nat option" | Seq rx rx | Alt rx rx | Opt rx | WB

type_synonym cursor = "char option \<times> string"

fun in_class :: "cclass \<Rightarrow> char \<Rightarrow> bool" where
  "in_class Digit c = is_digit c"
| "in_class Word c = is_word c"
| "in_class Space c = is_space c"
| "in_class (OneOf s) c = (c \<in> set s)"

fun boundary :: "cursor \<Rightarrow> bool" where
  "boundary (None, []) = False"
| "boundary (None, c # cs) = is_word c"
| "boundary (Some p, []) = is_word p"
| "boundary (Some p, c # cs) = (is_word p \<noteq> is_word c)"

fun lit_ends :: "string \<Rightarrow> cursor \<Rightarrow> cursor list" where
  "lit_ends [] cur = [cur]"
| "lit_ends (p # ps) (prev, []) = []"
| "lit_ends (p # ps) (prev, c # cs) =
     (if lower_char p = lower_char c then lit_ends ps (Some c, cs) else [])"

text \<open>
  \<open>rep_ends c lo hi k cur\<close>: \<open>k\<close> characters of the class are already taken; the
  longest run is tried first, then the shorter ones down to \<open>lo\<close>.
\<close>

fun rep_ends :: "cclass \<Rightarrow> nat \<Rightarrow> nat option \<Rightarrow> nat \<Rightarrow> cursor \<Rightarrow> cursor list" where
  "rep_ends c lo hi k (prev, []) = (if lo \<le> k then [(prev, [])] else [])"
| "rep_ends c lo hi k (prev, x # xs) =
     (if in_class c x \<and> (case hi of None \<Rightarrow> True | Some h \<Rightarrow> k < h)
      then rep_ends c lo hi (Suc k) (Some x, xs) @ (if lo \<le> k then [(prev, x # xs)] else [])
      else if lo \<le> k then [(prev, x # xs)] else [])"

text \<open>
  \<open>rx_ends r cur\<close> lists the cursors at which a match of \<open>r\<close> starting at \<open>cur\<close>
  can end, in the order in which the backtracking matcher tries them; the match that
  \<open>re\<close> reports is the first.
\<close>

fun rx_ends :: "rx \<Rightarrow> cursor \<Rightarrow> cursor list" where
  "rx_ends (Lit s) cur = lit_ends s cur"
| "rx_ends (Rep c lo hi) cur = rep_ends c lo hi 0 cur"
| "rx_ends (Seq a b) cur = concat (map (rx_ends b) (rx_ends a cur))"
| "rx_ends (Alt a b) cur = rx_ends a cur @ rx_ends b cur"
| "rx_ends (Opt a) cur = rx_ends a cur @ [cur]"
| "rx_ends WB cur = (if boundary cur then [cur] else [])"

text \<open>The length of the match that \<open>re\<close> reports at a cursor, if there is one.\<close>

definition match_at :: "rx \<Rightarrow> cursor \<Rightarrow> nat option" where
  "match_at r cur = (case rx_ends r cur of [] \<Rightarrow> None
                     | (p, rest) # _ \<Rightarrow> Some (length (snd cur) - length rest))"

text \<open>\<open>re.search\<close>: the leftmost position with a match, as \<open>(start, end)\<close>.\<close>

fun search_from :: "rx \<Rightarrow> cursor \<Rightarrow> nat \<Rightarrow> (nat \<times> nat) option" where
  "search_from r (prev, []) pos =
     (case match_at r (prev, []) of Some n \<Rightarrow> Some (pos, pos + n) | None \<Rightarrow> None)"
| "search_from r (prev, c # cs) pos =
     (case match_at r (prev, c # cs) of
        Some n \<Rightarrow> Some (pos, pos + n)
      | None \<Rightarrow> search_from r (Some c, cs) (Suc pos))"

definition re_search :: "rx \<Rightarrow> string \<Rightarrow> (nat \<times> nat) option" where
  "re_search r text = search_from r (None, text) 0"

definition re_found :: "rx \<Rightarrow> string \<Rightarrow> bool" where
  "re_found r text = (re_search r text \<noteq> None)"

text \<open>
  \<open>re.findall\<close> for a pattern without a capturing group: the texts of the
  non-overlapping matches from left to right. After a match the next \<open>skip\<close> characters,
  the rest of the match, are passed over; none of the patterns it is used with matches the
  empty string.
\<close>

fun scan :: "rx \<Rightarrow> cursor \<Rightarrow> nat \<Rightarrow> string list" where
  "scan r (prev, []) skip = []"
| "scan r (prev, c # cs) skip =
     (if 0 < skip then scan r (Some c, cs) (skip - 1)
      else case match_at r (prev, c # cs) of
             None \<Rightarrow> scan r (Some c, cs) 0
           | Some n \<Rightarrow> take n (c # cs) # scan r (Some c, cs) (n - 1))"

definition re_findall :: "rx \<Rightarrow> string \<Rightarrow> string list" where
  "re_findall r text = scan r (None, text) 0"

text \<open>
  \<open>re.findall\<close> for a pattern \<open>pre(grp)post\<close> with one capturing group: for each match
  the text of the group, not of the whole match. \<open>group_at\<close> gives the length of the
  first match and the text of its group.
\<close>

definition group_at :: "rx \<Rightarrow> rx \<Rightarrow> rx \<Rightarrow> cursor \<Rightarrow> (nat \<times> string) option" where
  "group_at pre grp post cur =
     (case concat (map (\<lambda>p. concat (map (\<lambda>g. map (\<lambda>e. (p, g, e)) (rx_ends post g))
                                            (rx_ends grp p)))
                       (rx_ends pre cur)) of
        [] \<Rightarrow> None
      | (p, g, e) # _ \<Rightarrow>
          Some (length (snd cur) - length (snd e),
                take (length (snd p) - length (snd g)) (snd p)))"

fun scan_group :: "rx \<Rightarrow> rx \<Rightarrow> rx \<Rightarrow> cursor \<Rightarrow> nat \<Rightarrow> string list" where
  "scan_group pre grp post (prev, []) skip = []"
| "scan_group pre grp post (prev, c # cs) skip =
     (if 0 < skip then scan_group pre grp post (Some c, cs) (skip - 1)
      else case group_at pre grp post (prev, c # cs) of
             None \<Rightarrow> scan_group pre grp post (Some c, cs) 0
           | Some (n, g) \<Rightarrow> g # scan_group pre grp post (Some c, cs) (n - 1))"

definition re_findall_group :: "rx \<Rightarrow> rx \<Rightarrow> rx \<Rightarrow> string \<Rightarrow> string list" where
  "re_findall_group pre grp post text = scan_group pre grp post (None, text) 0"

text \<open>Helpers to write patterns: \<open>a|b|c\<close>, concatenation, and \<open>\b(?:w1|w2|...)\b\<close>.\<close>

definition alts :: "rx list \<Rightarrow> rx" where
  "alts rs = foldr Alt (butlast rs) (last rs)"

definition seqs :: "rx list \<Rightarrow> rx" where
  "seqs rs = foldr Seq rs (Lit [])"

definition any_word :: "string list \<Rightarrow> rx" where
  "any_word ws = seqs [WB, alts (map Lit ws), WB]"

section \<open>Schemas\<close>

text \<open>
  The pydantic models of \<open>core/schemas.py\<close> as records. Field names that several
  models share carry a prefix. The opaque \<open>metadata\<close> dictionaries and the rendered
  \<open>explanation\<close> of a verdict (formatted floats) are left out. Constructing a model
  validates its \<open>Field\<close> constraints and raises otherwise: the \<open>mk_\<close> functions.
\<close>

datatype error = ValidationError | ValueError

datatype AlignmentLabel = SUPPORTS | WEAK_SUPPORT | CONTRADICTS | IRRELEVANT

datatype VerdictLabel = GROUNDED | WEAK | HALLUCINATED

datatype ClaimType = DIRECT | HEDGED | MULTI_HOP | TEMPORAL | COMPARATIVE | QUANTITATIVE

datatype ContradictionType =
  NONE | DIRECT_NEGATION | TEMPORAL_MISMATCH | QUANTITATIVE_MISMATCH | OUTDATED_EVIDENCE
  | PARTIAL_OVERLAP

definition unit_range :: "real \<Rightarrow> bool" where
  "unit_range x = (0 \<le> x \<and> x \<le> 1)"

record Claim =
  c_id :: string
  c_text :: string
  source_span :: "int \<times> int"
  raw_confidence :: real
  is_factual :: bool
  claim_type :: ClaimType
  extraction_confidence :: real
  hedging_detected :: bool

definition Claim_ok :: "Claim \<Rightarrow> bool" where
  "Claim_ok c = (c_text c \<noteq> [] \<and> fst (source_span c) \<le> snd (source_span c)
                 \<and> unit_range (raw_confidence c) \<and> unit_range (extraction_confidence c))"

definition mk_Claim :: "Claim \<Rightarrow> error + Claim" where
  "mk_Claim c = (if Claim_ok c then Inr c else Inl ValidationError)"

record EvidenceChunk =
  e_id :: string
  e_text :: string
  source :: string
  similarity_score :: real
  chunk_index :: int

definition EvidenceChunk_ok :: "EvidenceChunk \<Rightarrow> bool" where
  "EvidenceChunk_ok e = (e_text e \<noteq> [] \<and> unit_range (similarity_score e) \<and> 0 \<le> chunk_index e)"

definition mk_EvidenceChunk :: "EvidenceChunk \<Rightarrow> error + EvidenceChunk" where
  "mk_EvidenceChunk e = (if EvidenceChunk_ok e then Inr e else Inl ValidationError)"

record AlignmentResult =
  claim_id :: string
  evidence_id :: string
  label :: AlignmentLabel
  confidence :: real
  explanation :: string
  temporal_match :: bool
  semantic_score :: real
  logical_score :: real
  contradiction_type :: ContradictionType
  negation_detected :: bool
  evidence_date :: "string option"
  claim_date :: "string option"

definition AlignmentResult_ok :: "AlignmentResult \<Rightarrow> bool" where
  "AlignmentResult_ok a = (unit_range (confidence a) \<and> unit_range (semantic_score a)
                           \<and> unit_range (logical_score a))"

definition mk_AlignmentResult :: "AlignmentResult \<Rightarrow> error + AlignmentResult" where
  "mk_AlignmentResult a = (if AlignmentResult_ok a then Inr a else Inl ValidationError)"

text \<open>\<open>penalty_breakdown\<close> is a dictionary: an association list in insertion order.\<close>

record CalibratedConfidence =
  cc_claim_id :: string
  cc_raw_confidence :: real
  calibrated_confidence :: real
  penalties_applied :: "string list"
  penalty_breakdown :: "(string \<times> real) list"

definition CalibratedConfidence_ok :: "CalibratedConfidence \<Rightarrow> bool" where
  "CalibratedConfidence_ok k = (unit_range (cc_raw_confidence k) \<and> unit_range (calibrated_confidence k))"

definition mk_CalibratedConfidence :: "CalibratedConfidence \<Rightarrow> error + CalibratedConfidence" where
  "mk_CalibratedConfidence k = (if CalibratedConfidence_ok k then Inr k else Inl ValidationError)"

record Verdict =
  claim :: Claim
  v_label :: VerdictLabel
  hallucination_risk :: real
  evidence_strength :: real
  v_calibrated_confidence :: CalibratedConfidence
  alignments :: "AlignmentResult list"
  best_evidence :: "EvidenceChunk option"
  contradiction_detected :: bool

definition Verdict_ok :: "Verdict \<Rightarrow> bool" where
  "Verdict_ok v = (unit_range (hallucination_risk v) \<and> unit_range (evidence_strength v))"

definition mk_Verdict :: "Verdict \<Rightarrow> error + Verdict" where
  "mk_Verdict v = (if Verdict_ok v then Inr v else Inl ValidationError)"

text \<open>\<open>AlignmentLabel(s)\<close>, \<open>ContradictionType(s)\<close>, \<open>ClaimType(s)\<close>: the member whose value is \<open>s\<close>.\<close>

definition parse_label :: "string \<Rightarrow> AlignmentLabel option" where
  "parse_label s = map_of [(''SUPPORTS'', SUPPORTS), (''WEAK_SUPPORT'', WEAK_SUPPORT),
                           (''CONTRADICTS'', CONTRADICTS), (''IRRELEVANT'', IRRELEVANT)] s"

definition parse_contradiction_type :: "string \<Rightarrow> ContradictionType option" where
  "parse_contradiction_type s =
     map_of [(''NONE'', NONE), (''DIRECT_NEGATION'', DIRECT_NEGATION),
             (''TEMPORAL_MISMATCH'', TEMPORAL_MISMATCH),
             (''QUANTITATIVE_MISMATCH'', QUANTITATIVE_MISMATCH),
             (''OUTDATED_EVIDENCE'', OUTDATED_EVIDENCE), (''PARTIAL_OVERLAP'', PARTIAL_OVERLAP)] s"

definition parse_claim_type :: "string \<Rightarrow> ClaimType option" where
  "parse_claim_type s = map_of [(''DIRECT'', DIRECT), (''HEDGED'', HEDGED), (''MULTI_HOP'', MULTI_HOP),
                                (''TEMPORAL'', TEMPORAL), (''COMPARATIVE'', COMPARATIVE),
                                (''QUANTITATIVE'', QUANTITATIVE)] s"

section \<open>Alignment evaluation (evaluators/alignment.py)\<close>

definition NEGATION_PATTERNS :: rx where
  "NEGATION_PATTERNS = alts
     [any_word [''not'', ''no'', ''never'', ''none'', ''neither'', ''nor'', ''nothing'', ''nowhere'',
                ''nobody''],
      any_word [''isn't'', ''aren't'', ''wasn't'', ''weren't'', ''won't'', ''wouldn't'', ''couldn't'',
                ''shouldn't''],
      any_word [''doesn't'', ''don't'', ''didn't'', ''hasn't'', ''haven't'', ''hadn't''],
      any_word [''cannot'', ''can't''],
      any_word [''NOT'']]"

text \<open>\<open>YEAR_PATTERN = \b(19|20)\d{2}\b\<close>, split around its capturing group.\<close>

definition YEAR_PATTERN_group :: rx where
  "YEAR_PATTERN_group = Alt (Lit ''19'') (Lit ''20'')"

definition YEAR_PATTERN_post :: rx where
  "YEAR_PATTERN_post = seqs [Rep Digit 2 (Some 2), WB]"

definition digits :: rx where
  "digits = Rep Digit 1 None"

definition spaces :: rx where
  "spaces = Rep Space 1 None"

definition temporal_marker_patterns :: "rx list" where
  "temporal_marker_patterns =
     [seqs [WB, Rep Digit 4 (Some 4), WB],
      seqs [WB, Opt (Lit ''v''), digits, Lit ''.'', digits, Opt (Seq (Lit ''.'') digits), WB],
      seqs [WB, alts (map Lit [''January'', ''February'', ''March'', ''April'', ''May'', ''June'', ''July'',
                               ''August'', ''September'', ''October'', ''November'', ''December'']),
            spaces, Rep Digit 1 (Some 2), Opt (Lit '',''), spaces, Rep Digit 4 (Some 4), WB],
      seqs [WB, Rep Digit 1 (Some 2), Lit ''/'', Rep Digit 1 (Some 2), Lit ''/'', Rep Digit 2 (Some 4), WB],
      seqs [WB, alts [Lit ''yesterday'', Lit ''today'', Lit ''tomorrow'',
                      seqs [Lit ''last'', spaces, Rep Word 1 None],
                      seqs [Lit ''next'', spaces, Rep Word 1 None]], WB]]"

definition extract_temporal_markers :: "string \<Rightarrow> string list" where
  "extract_temporal_markers text = concat (map (\<lambda>p. re_findall p text) temporal_marker_patterns)"

definition extract_years :: "string \<Rightarrow> string list" where
  "extract_years text = re_findall_group WB YEAR_PATTERN_group YEAR_PATTERN_post text"

definition detect_negation :: "string \<Rightarrow> bool" where
  "detect_negation text = re_found NEGATION_PATTERNS text"

definition number_pattern :: rx where
  "number_pattern = seqs [WB, digits, Opt (Seq (Lit ''.'') digits), WB]"

definition disjoint_nonempty :: "string list \<Rightarrow> string list \<Rightarrow> bool" where
  "disjoint_nonempty xs ys = (xs \<noteq> [] \<and> ys \<noteq> [] \<and> \<not> list_ex (\<lambda>x. x \<in> set ys) xs)"

definition detect_contradiction_type :: "string \<Rightarrow> string \<Rightarrow> bool \<Rightarrow> bool \<Rightarrow> ContradictionType" where
  "detect_contradiction_type claim_s evidence_s claim_has_negation evidence_has_negation =
     (if claim_has_negation \<noteq> evidence_has_negation then DIRECT_NEGATION
      else if disjoint_nonempty (extract_years claim_s) (extract_years evidence_s)
      then TEMPORAL_MISMATCH
      else if disjoint_nonempty (re_findall number_pattern claim_s) (re_findall number_pattern evidence_s)
      then QUANTITATIVE_MISMATCH
      else PARTIAL_OVERLAP)"

definition quick_temporal_check :: "string \<Rightarrow> string \<Rightarrow> bool" where
  "quick_temporal_check claim_s evidence_s =
     (let claim_markers = extract_temporal_markers claim_s;
          evidence_markers = extract_temporal_markers evidence_s
      in if claim_markers = [] then True
         else list_ex (\<lambda>m. m \<in> set evidence_markers) claim_markers)"

text \<open>The label and the contradiction type that the heuristic chooses from its scores.\<close>

definition heuristic_label :: "bool \<Rightarrow> bool \<Rightarrow> real \<Rightarrow> real \<Rightarrow> AlignmentLabel \<times> ContradictionType" where
  "heuristic_label negation_mismatch tm sem logical =
     (if negation_mismatch \<and> sem > 0.5 then (CONTRADICTS, DIRECT_NEGATION)
      else if \<not> tm \<and> sem > 0.5 then (CONTRADICTS, TEMPORAL_MISMATCH)
      else (let avg_score = (sem + logical) / 2
            in if avg_score > 0.7 then SUPPORTS
               else if avg_score > 0.4 then WEAK_SUPPORT
               else if avg_score < 0.2 then IRRELEVANT
               else WEAK_SUPPORT, NONE))"

definition heuristic_evaluate :: "Claim \<Rightarrow> EvidenceChunk \<Rightarrow> string \<Rightarrow> error + AlignmentResult" where
  "heuristic_evaluate c e err =
     (let sem = similarity_score e;
          tm = quick_temporal_check (c_text c) (e_text e);
          negation_mismatch = (detect_negation (c_text c) \<noteq> detect_negation (e_text e));
          claim_words = remdups (split (lower (c_text c)));
          evidence_words = split (lower (e_text e));
          overlap = real (length (filter (\<lambda>w. w \<in> set evidence_words) claim_words))
                    / real (max (length claim_words) 1);
          logical = min (overlap * 2) 1
      in case heuristic_label negation_mismatch tm sem logical of (lab, ct) \<Rightarrow>
           mk_AlignmentResult
             \<lparr>claim_id = c_id c, evidence_id = e_id e, label = lab, confidence = 0.5,
              explanation = ''Heuristic evaluation (LLM unavailable: '' @ take 50 err @ '')'',
              temporal_match = tm, semantic_score = sem, logical_score = logical,
              contradiction_type = ct, negation_detected = negation_mismatch,
              evidence_date = None, claim_date = None\<rparr>)"

text \<open>
  The reply of \<open>llm.complete_json(prompt, ALIGNMENT_SCHEMA)\<close>: the keys the schema requires,
  and the optional ones, absent as \<open>None\<close>. The oracle is a function of the two texts the
  prompt is built from; \<open>Inl msg\<close> is a call that raised.
\<close>

record alignment_reply =
  r_label :: string
  r_confidence :: real
  r_explanation :: string
  r_temporal_match :: bool
  r_semantic_score :: real
  r_logical_score :: real
  r_negation_detected :: "bool option"
  r_contradiction_type :: "string option"
  r_claim_date :: "string option"
  r_evidence_date :: "string option"

type_synonym alignment_oracle = "string \<Rightarrow> string \<Rightarrow> string + alignment_reply"

definition reply_contradiction_type :: "alignment_reply \<Rightarrow> ContradictionType" where
  "reply_contradiction_type r =
     (case r_contradiction_type r of None \<Rightarrow> NONE
      | Some s \<Rightarrow> (case parse_contradiction_type s of None \<Rightarrow> NONE | Some t \<Rightarrow> t))"

definition evaluate_single :: "alignment_oracle \<Rightarrow> Claim \<Rightarrow> EvidenceChunk \<Rightarrow> error + AlignmentResult" where
  "evaluate_single llm c e =
     (let claim_has_negation = detect_negation (c_text c);
          evidence_has_negation = detect_negation (e_text e)
      in case llm (c_text c) (e_text e) of
           Inl msg \<Rightarrow> heuristic_evaluate c e msg
         | Inr r \<Rightarrow>
             (let ct0 = reply_contradiction_type r;
                  ct = (if r_label r = ''CONTRADICTS'' \<and> ct0 = NONE
                        then detect_contradiction_type (c_text c) (e_text e)
                               claim_has_negation evidence_has_negation
                        else ct0)
              in case parse_label (r_label r) of
                   None \<Rightarrow> Inl ValueError
                 | Some lab \<Rightarrow>
                     mk_AlignmentResult
                       \<lparr>claim_id = c_id c, evidence_id = e_id e, label = lab,
                        confidence = r_confidence r, explanation = r_explanation r,
                        temporal_match = r_temporal_match r,
                        semantic_score = r_semantic_score r, logical_score = r_logical_score r,
                        contradiction_type = ct,
                        negation_detected =
                          (case r_negation_detected r of
                             None \<Rightarrow> (claim_has_negation \<noteq> evidence_has_negation)
                           | Some b \<Rightarrow> b),
                        evidence_date = r_evidence_date r, claim_date = r_claim_date r\<rparr>))"

text \<open>\<open>evaluate\<close>: one result per evidence chunk; the first exception ends the comprehension.\<close>

fun evaluate_all :: "alignment_oracle \<Rightarrow> Claim \<Rightarrow> EvidenceChunk list \<Rightarrow> error + AlignmentResult list" where
  "evaluate_all llm c [] = Inr []"
| "evaluate_all llm c (e # es) =
     (case evaluate_single llm c e of
        Inl err \<Rightarrow> Inl err
      | Inr a \<Rightarrow> (case evaluate_all llm c es of Inl err \<Rightarrow> Inl err | Inr as \<Rightarrow> Inr (a # as)))"

definition evaluate :: "alignment_oracle \<Rightarrow> Claim \<Rightarrow> EvidenceChunk list \<Rightarrow> error + AlignmentResult list" where
  "evaluate llm c evidence = (if evidence = [] then Inr [] else evaluate_all llm c evidence)"

section \<open>Confidence calibration (calibrators/confidence.py)\<close>

record CalibrationConfig =
  no_evidence_penalty :: real
  contradiction_penalty :: real
  vague_language_penalty :: real
  weak_evidence_penalty :: real

definition default_CalibrationConfig :: CalibrationConfig where
  "default_CalibrationConfig =
     \<lparr>no_evidence_penalty = 0.4, contradiction_penalty = 0.6, vague_language_penalty = 0.2,
      weak_evidence_penalty = 0.15\<rparr>"

definition opt_s :: "string \<Rightarrow> rx" where
  "opt_s w = Seq (Lit w) (Opt (Lit ''s''))"

definition VAGUE_PATTERNS :: rx where
  "VAGUE_PATTERNS = alts
     [any_word [''might'', ''may'', ''could'', ''possibly'', ''perhaps'', ''probably'', ''likely'',
                ''unlikely''],
      any_word [''some'', ''many'', ''few'', ''several'', ''various'', ''certain''],
      any_word [''often'', ''sometimes'', ''occasionally'', ''rarely'', ''usually'', ''generally''],
      seqs [WB, alts [opt_s ''seem'', opt_s ''appear'', opt_s ''suggest''], WB],
      any_word [''around'', ''approximately'', ''about'', ''roughly''],
      any_word [''I think'', ''I believe'', ''in my opinion'']]"

definition detect_vague_language :: "string \<Rightarrow> bool" where
  "detect_vague_language text = re_found VAGUE_PATTERNS text"

definition has_contradiction :: "AlignmentResult list \<Rightarrow> bool" where
  "has_contradiction als = list_ex (\<lambda>a. label a = CONTRADICTS) als"

definition has_strong_support :: "AlignmentResult list \<Rightarrow> bool" where
  "has_strong_support als = list_ex (\<lambda>a. label a = SUPPORTS \<and> confidence a > 0.7) als"

fun label_weight :: "AlignmentLabel \<Rightarrow> real" where
  "label_weight SUPPORTS = 1.0"
| "label_weight WEAK_SUPPORT = 0.5"
| "label_weight CONTRADICTS = - 0.5"
| "label_weight IRRELEVANT = 0.0"

definition quality_score :: "EvidenceChunk list \<Rightarrow> AlignmentResult \<Rightarrow> real" where
  "quality_score evidence a =
     (let sim_score = (case List.find (\<lambda>e. e_id e = evidence_id a) evidence of
                         Some e \<Rightarrow> similarity_score e | None \<Rightarrow> 0.5)
      in label_weight (label a) * confidence a * sim_score)"

definition compute_evidence_quality :: "AlignmentResult list \<Rightarrow> EvidenceChunk list \<Rightarrow> real" where
  "compute_evidence_quality als evidence =
     (if als = [] then 0.0
      else max 0.0 (min 1.0 (sum_list (map (quality_score evidence) als) / real (length als) + 0.5)))"

text \<open>
  The state \<open>calibrate\<close> updates while it runs: the running value, the list
  \<open>penalties\<close> and the dictionary \<open>penalty_breakdown\<close>. Each penalty branch subtracts,
  appends its key and stores its amount.
\<close>

type_synonym calib_state = "real \<times> string list \<times> (string \<times> real) list"

definition apply_penalty :: "string \<Rightarrow> real \<Rightarrow> calib_state \<Rightarrow> calib_state" where
  "apply_penalty key penalty st =
     (case st of (calibrated, penalties, breakdown) \<Rightarrow>
        (calibrated - penalty, penalties @ [key], AList.update key penalty breakdown))"

definition evidence_penalty :: "CalibrationConfig \<Rightarrow> AlignmentResult list \<Rightarrow> EvidenceChunk list \<Rightarrow> calib_state \<Rightarrow> calib_state" where
  "evidence_penalty cfg als evidence st =
     (if evidence = [] then apply_penalty ''no_evidence'' (no_evidence_penalty cfg) st
      else if has_contradiction als
      then apply_penalty ''contradiction_detected'' (contradiction_penalty cfg) st
      else if \<not> has_strong_support als
      then apply_penalty ''weak_evidence_only'' (weak_evidence_penalty cfg) st
      else st)"

definition vague_penalty :: "CalibrationConfig \<Rightarrow> Claim \<Rightarrow> calib_state \<Rightarrow> calib_state" where
  "vague_penalty cfg c st =
     (if detect_vague_language (c_text c)
      then apply_penalty ''vague_language'' (vague_language_penalty cfg) st else st)"

definition evidence_boost :: "AlignmentResult list \<Rightarrow> EvidenceChunk list \<Rightarrow> calib_state \<Rightarrow> calib_state" where
  "evidence_boost als evidence st =
     (case st of (calibrated, penalties, breakdown) \<Rightarrow>
        if has_strong_support als \<and> \<not> has_contradiction als
        then (let evidence_quality = compute_evidence_quality als evidence
              in if evidence_quality > 0.7
                 then (let boost = min 0.1 ((evidence_quality - 0.7) * 0.5)
                       in if boost > 0
                          then (calibrated + boost, penalties @ [''strong_evidence_boost''],
                                AList.update ''strong_evidence_boost'' (- boost) breakdown)
                          else (calibrated + boost, penalties, breakdown))
                 else st)
        else st)"

definition calibrate_state :: "CalibrationConfig \<Rightarrow> Claim \<Rightarrow> AlignmentResult list \<Rightarrow> EvidenceChunk list \<Rightarrow> calib_state" where
  "calibrate_state cfg c als evidence =
     evidence_boost als evidence
       (vague_penalty cfg c (evidence_penalty cfg als evidence (raw_confidence c, [], [])))"

definition calibrate :: "CalibrationConfig \<Rightarrow> Claim \<Rightarrow> AlignmentResult list \<Rightarrow> EvidenceChunk list \<Rightarrow> error + CalibratedConfidence" where
  "calibrate cfg c als evidence =
     (case calibrate_state cfg c als evidence of (calibrated, penalties, breakdown) \<Rightarrow>
        mk_CalibratedConfidence
          \<lparr>cc_claim_id = c_id c, cc_raw_confidence = raw_confidence c,
           calibrated_confidence = max 0.0 (min 1.0 calibrated),
           penalties_applied = penalties, penalty_breakdown = breakdown\<rparr>)"

section \<open>Verdicts (verdict/engine.py)\<close>

record VerdictConfig =
  hallucination_threshold :: real
  grounded_threshold :: real
  confidence_weight :: real
  evidence_weight :: real

definition VerdictConfig_ok :: "VerdictConfig \<Rightarrow> bool" where
  "VerdictConfig_ok cfg = (unit_range (hallucination_threshold cfg) \<and> unit_range (grounded_threshold cfg)
                           \<and> unit_range (confidence_weight cfg) \<and> unit_range (evidence_weight cfg))"

definition default_VerdictConfig :: VerdictConfig where
  "default_VerdictConfig =
     \<lparr>hallucination_threshold = 0.3, grounded_threshold = 0.7, confidence_weight = 0.4,
      evidence_weight = 0.6\<rparr>"

fun label_score :: "AlignmentLabel \<Rightarrow> real" where
  "label_score SUPPORTS = 1.0"
| "label_score WEAK_SUPPORT = 0.5"
| "label_score CONTRADICTS = 0.1"
| "label_score IRRELEVANT = 0.0"

definition weighted_score :: "AlignmentResult \<Rightarrow> real" where
  "weighted_score a =
     (let weighted = label_score (label a) * confidence a * (semantic_score a + logical_score a) / 2
      in if \<not> temporal_match a then weighted * 0.7 else weighted)"

fun max_list :: "real list \<Rightarrow> real" where
  "max_list [] = 0.0"
| "max_list [x] = x"
| "max_list (x # xs) = max x (max_list xs)"

definition compute_evidence_strength :: "AlignmentResult list \<Rightarrow> EvidenceChunk list \<Rightarrow> real" where
  "compute_evidence_strength als evidence =
     (if als = [] then 0.0 else max_list (map weighted_score als))"

fun first_with_label :: "AlignmentLabel \<Rightarrow> AlignmentResult list \<Rightarrow> EvidenceChunk list \<Rightarrow> EvidenceChunk option" where
  "first_with_label lab [] evidence = None"
| "first_with_label lab (a # as) evidence =
     (if label a = lab
      then (case List.find (\<lambda>e. e_id e = evidence_id a) evidence of
              Some e \<Rightarrow> Some e
            | None \<Rightarrow> first_with_label lab as evidence)
      else first_with_label lab as evidence)"

text \<open>\<open>max(evidence, key=...)\<close>: the first chunk of the highest similarity.\<close>

fun max_similarity :: "EvidenceChunk \<Rightarrow> EvidenceChunk list \<Rightarrow> EvidenceChunk" where
  "max_similarity best [] = best"
| "max_similarity best (e # es) =
     max_similarity (if similarity_score e > similarity_score best then e else best) es"

definition find_best_evidence :: "AlignmentResult list \<Rightarrow> EvidenceChunk list \<Rightarrow> EvidenceChunk option" where
  "find_best_evidence als evidence =
     (if als = [] \<or> evidence = [] then None
      else case first_with_label SUPPORTS als evidence of
             Some e \<Rightarrow> Some e
           | None \<Rightarrow>
               (case first_with_label WEAK_SUPPORT als evidence of
                  Some e \<Rightarrow> Some e
                | None \<Rightarrow> Some (max_similarity (hd evidence) (tl evidence))))"

definition compute :: "VerdictConfig \<Rightarrow> Claim \<Rightarrow> EvidenceChunk list \<Rightarrow> AlignmentResult list \<Rightarrow> CalibratedConfidence \<Rightarrow> error + Verdict" where
  "compute cfg c evidence als calibrated =
     (let strength = compute_evidence_strength als evidence;
          contradiction = list_ex (\<lambda>a. label a = CONTRADICTS) als;
          confidence_factor = cc_raw_confidence calibrated;
          evidence_factor = 1.0 - strength;
          risk0 = confidence_weight cfg * confidence_factor + evidence_weight cfg * evidence_factor;
          risk = (if contradiction then min 1.0 (risk0 + 0.2) else risk0);
          lab = (if strength \<ge> grounded_threshold cfg \<and> \<not> contradiction then GROUNDED
                 else if strength \<le> hallucination_threshold cfg \<or> contradiction then HALLUCINATED
                 else WEAK)
      in mk_Verdict
           \<lparr>claim = c, v_label = lab, hallucination_risk = risk, evidence_strength = strength,
            v_calibrated_confidence = calibrated, alignments = als,
            best_evidence = find_best_evidence als evidence, contradiction_detected = contradiction\<rparr>)"

section \<open>The pipeline (pipeline.py)\<close>

text \<open>
  The body of the loop of \<open>analyze\<close> after retrieval: evaluate, calibrate, compute. An
  exception of any stage leaves the loop.
\<close>

definition analyze_claim :: "alignment_oracle \<Rightarrow> CalibrationConfig \<Rightarrow> VerdictConfig \<Rightarrow> Claim \<Rightarrow> EvidenceChunk list \<Rightarrow> error + Verdict" where
  "analyze_claim llm ccfg vcfg c evidence =
     (case evaluate llm c evidence of
        Inl err \<Rightarrow> Inl err
      | Inr als \<Rightarrow>
          (case calibrate ccfg c als evidence of
             Inl err \<Rightarrow> Inl err
           | Inr calibrated \<Rightarrow> compute vcfg c evidence als calibrated))"

section \<open>The evidence store (retrievers/local_vector.py)\<close>

record RetrievalConfig =
  chunk_size :: int
  chunk_overlap :: int
  top_k :: int
  similarity_threshold :: real

definition RetrievalConfig_ok :: "RetrievalConfig \<Rightarrow> bool" where
  "RetrievalConfig_ok cfg = (0 < chunk_size cfg \<and> 0 \<le> chunk_overlap cfg \<and> 0 < top_k cfg
                             \<and> unit_range (similarity_threshold cfg))"

definition default_RetrievalConfig :: RetrievalConfig where
  "default_RetrievalConfig =
     \<lparr>chunk_size = 512, chunk_overlap = 64, top_k = 5, similarity_threshold = 0.3\<rparr>"

text \<open>
  \<open>int(end - chunk_size * 0.2)\<close>: the product taken exactly, \<open>int\<close> truncating
  towards zero.
\<close>

definition search_start :: "int \<Rightarrow> int \<Rightarrow> int" where
  "search_start end_pos csize =
     (let x = 5 * end_pos - csize in if 0 \<le> x then x div 5 else - ((- x) div 5))"

definition separators :: "string list" where
  "separators = [''. '', [CHR ''.'', CHR 0x0A], ''! '', ''? '', [CHR 0x0A, CHR 0x0A]]"

text \<open>The \<open>for sep in ...\<close> loop: the first separator found behind \<open>start\<close> moves the end.\<close>

fun find_break :: "string \<Rightarrow> int \<Rightarrow> int \<Rightarrow> int \<Rightarrow> string list \<Rightarrow> int" where
  "find_break text start from end_pos [] = end_pos"
| "find_break text start from end_pos (sep # seps) =
     (let pos = rfind_str text sep from end_pos
      in if pos > start then pos + int (length sep)
         else find_break text start from end_pos seps)"

text \<open>
  The \<open>while start < len(text)\<close> loop of \<open>_chunk_text\<close>. Nothing bounds the number of
  its rounds for every configuration, so the model counts them down from \<open>fuel\<close>;
  \<open>None\<close> is a loop that has not ended by then.
\<close>

fun chunk_loop :: "nat \<Rightarrow> RetrievalConfig \<Rightarrow> string \<Rightarrow> int \<Rightarrow> string list \<Rightarrow> string list option" where
  "chunk_loop 0 cfg text start chunks = None"
| "chunk_loop (Suc fuel) cfg text start chunks =
     (if start < int (length text)
      then (let end0 = start + chunk_size cfg;
                end_pos = (if end0 < int (length text)
                           then find_break text start (search_start end0 (chunk_size cfg)) end0
                                  separators
                           else end0)
            in chunk_loop fuel cfg text (end_pos - chunk_overlap cfg)
                 (chunks @ [strip (slice text start end_pos)]))
      else Some chunks)"

definition chunk_text :: "nat \<Rightarrow> RetrievalConfig \<Rightarrow> string \<Rightarrow> string list option" where
  "chunk_text fuel cfg text = map_option (filter (\<lambda>c. c \<noteq> [])) (chunk_loop fuel cfg text 0 [])"

text \<open>
  A row of the table \<open>chunks\<close>, its embedding decoded. The embedder is a function from
  the query to its vector; \<open>np.dot\<close> raises on vectors of different lengths.
\<close>

record chunk_row =
  row_id :: string
  row_text :: string
  row_source :: string
  row_chunk_index :: int
  row_embedding :: "real list"

definition dot :: "real list \<Rightarrow> real list \<Rightarrow> error + real" where
  "dot xs ys = (if length xs = length ys then Inr (sum_list (map2 (*) xs ys)) else Inl ValueError)"

fun similar_chunks :: "RetrievalConfig \<Rightarrow> real list \<Rightarrow> chunk_row list \<Rightarrow> error + EvidenceChunk list" where
  "similar_chunks cfg query_emb [] = Inr []"
| "similar_chunks cfg query_emb (row # rows) =
     (case dot query_emb (row_embedding row) of
        Inl err \<Rightarrow> Inl err
      | Inr similarity \<Rightarrow>
          if similarity \<ge> similarity_threshold cfg
          then (case mk_EvidenceChunk
                       \<lparr>e_id = row_id row, e_text = row_text row, source = row_source row,
                        similarity_score = similarity, chunk_index = row_chunk_index row\<rparr> of
                  Inl err \<Rightarrow> Inl err
                | Inr chunk \<Rightarrow>
                    (case similar_chunks cfg query_emb rows of
                       Inl err \<Rightarrow> Inl err
                     | Inr results \<Rightarrow> Inr (chunk # results)))
          else similar_chunks cfg query_emb rows)"

text \<open>\<open>top_k or self.config.top_k\<close>: the argument unless it is \<open>None\<close> or 0.\<close>

definition effective_top_k :: "RetrievalConfig \<Rightarrow> int option \<Rightarrow> int" where
  "effective_top_k cfg k_arg =
     (case k_arg of None \<Rightarrow> top_k cfg | Some k \<Rightarrow> if k = 0 then top_k cfg else k)"

text \<open>
  \<open>results.sort(key=..., reverse=True)\<close> is stable: so is \<open>sort_key\<close> on the negated
  score.
\<close>

definition retrieve :: "RetrievalConfig \<Rightarrow> (string \<Rightarrow> real list) \<Rightarrow> chunk_row list \<Rightarrow> string \<Rightarrow> int option \<Rightarrow> error + EvidenceChunk list" where
  "retrieve cfg embedder rows claim_s k_arg =
     (if rows = [] then Inr []
      else case similar_chunks cfg (embedder claim_s) rows of
             Inl err \<Rightarrow> Inl err
           | Inr results \<Rightarrow>
               Inr (prefix_to (sort_key (\<lambda>c. - similarity_score c) results)
                      (effective_top_k cfg k_arg)))"

section \<open>Claim extraction (extractors/claim_extractor.py)\<close>

definition HEDGING_PATTERNS :: rx where
  "HEDGING_PATTERNS = alts
     [any_word [''might'', ''may'', ''could'', ''possibly'', ''perhaps'', ''probably'', ''likely'',
                ''unlikely''],
      any_word [''it is believed'', ''it is thought'', ''some say'', ''reportedly'', ''allegedly''],
      seqs [WB, alts [opt_s ''seem'', opt_s ''appear'', opt_s ''suggest'', opt_s ''indicate''], WB],
      any_word [''I think'', ''I believe'', ''in my opinion'', ''arguably''],
      any_word [''generally'', ''typically'', ''usually'', ''often'', ''sometimes'']]"

definition MULTI_HOP_PATTERNS :: rx where
  "MULTI_HOP_PATTERNS = alts
     [any_word [''because'', ''therefore'', ''thus'', ''hence'', ''consequently'', ''as a result''],
      any_word [''since'', ''given that'', ''due to'', ''owing to''],
      any_word [''which means'', ''this implies'', ''leading to'']]"

definition TEMPORAL_PATTERNS :: rx where
  "TEMPORAL_PATTERNS = alts
     [any_word [''as of'', ''since'', ''until'', ''before'', ''after'', ''recently'', ''currently'',
                ''now''],
      seqs [WB, alts [Seq (Lit ''in '') (Rep Digit 4 (Some 4)),
                      Seq (Lit ''during '') (Rep Digit 4 (Some 4)),
                      Seq (Lit ''by '') (Rep Digit 4 (Some 4))], WB],
      any_word [''last year'', ''this year'', ''next year'']]"

definition COMPARATIVE_PATTERNS :: rx where
  "COMPARATIVE_PATTERNS = alts
     [seqs [WB, alts (map Lit [''faster'', ''slower'', ''better'', ''worse'', ''more'', ''less'',
                               ''larger'', ''smaller'']), spaces, Lit ''than'', WB],
      seqs [WB, alts [Lit ''compared to'', Lit ''relative to'', Lit ''versus'',
                      Seq (Lit ''vs'') (Opt (Lit ''.''))], WB],
      any_word [''the most'', ''the least'', ''the best'', ''the worst'']]"

definition QUANTITATIVE_PATTERNS :: rx where
  "QUANTITATIVE_PATTERNS = alts
     [seqs [WB, digits, Opt (Seq (Lit ''.'') digits), Rep Space 0 None,
            alts (map Lit [''billion'', ''million'', ''thousand'', ''percent'', ''%'']), WB],
      seqs [WB, alts (map Lit [''approximately'', ''about'', ''around'', ''roughly'']),
            Rep Space 0 None, digits, WB]]"

record ExtractionConfig =
  max_claims :: nat
  min_claim_length :: nat
  max_retries :: nat
  include_opinions :: bool

definition default_ExtractionConfig :: ExtractionConfig where
  "default_ExtractionConfig =
     \<lparr>max_claims = 50, min_claim_length = 10, max_retries = 3, include_opinions = False\<rparr>"

text \<open>
  \<open>_generate_claim_id\<close>: the first 12 characters of the hex digest of \<open>text:start\<close>;
  the digest function is a parameter.
\<close>

definition generate_claim_id :: "(string \<Rightarrow> string) \<Rightarrow> string \<Rightarrow> int \<Rightarrow> string" where
  "generate_claim_id sha256_hex text_s start = take 12 (sha256_hex (text_s @ '':'' @ str_int start))"

definition detect_claim_type :: "string \<Rightarrow> ClaimType" where
  "detect_claim_type text_s =
     (if re_found HEDGING_PATTERNS text_s then HEDGED
      else if re_found MULTI_HOP_PATTERNS text_s then MULTI_HOP
      else if re_found QUANTITATIVE_PATTERNS text_s then QUANTITATIVE
      else if re_found COMPARATIVE_PATTERNS text_s then COMPARATIVE
      else if re_found TEMPORAL_PATTERNS text_s then TEMPORAL
      else DIRECT)"

definition detect_hedging :: "string \<Rightarrow> bool" where
  "detect_hedging text_s = re_found HEDGING_PATTERNS text_s"

text \<open>
  An entry of the \<open>claims\<close> array of the oracle's reply: the keys the extractor reads
  with \<open>c[...]\<close>, and those it reads with \<open>c.get(...)\<close>, absent as \<open>None\<close>.
\<close>

record raw_claim =
  rc_text :: string
  rc_start :: "int option"
  rc_end :: "int option"
  rc_confidence :: real
  rc_is_factual :: "bool option"
  rc_claim_type :: "string option"
  rc_extraction_confidence :: "real option"

text \<open>The pattern \<open>\b\<close> followed by the escaped words joined by \<open>\s+\<close>.\<close>

fun join_spaces :: "string list \<Rightarrow> rx" where
  "join_spaces [] = Lit []"
| "join_spaces [w] = Lit w"
| "join_spaces (w # ws) = Seq (Lit w) (Seq spaces (join_spaces ws))"

definition fuzzy_pattern :: "string list \<Rightarrow> rx" where
  "fuzzy_pattern ws = Seq WB (join_spaces ws)"

definition sentence_end :: rx where
  "sentence_end = Rep (OneOf ''.!?'') 1 (Some 1)"

definition repair_span :: "string \<Rightarrow> raw_claim \<Rightarrow> int \<times> int" where
  "repair_span original c =
     (let text_s = rc_text c;
          start = (case rc_start c of Some i \<Rightarrow> i | None \<Rightarrow> 0);
          end_pos = (case rc_end c of Some i \<Rightarrow> i | None \<Rightarrow> int (length text_s))
      in case find_str (lower original) (lower text_s) of
           Some found_start \<Rightarrow> (int found_start, int found_start + int (length text_s))
         | None \<Rightarrow>
             (case re_search (fuzzy_pattern (take 5 (split text_s))) original of
                Some (m_start, m_end) \<Rightarrow>
                  (int m_start,
                   int m_start + (case re_search sentence_end (drop m_start original) of
                                    Some (s, e) \<Rightarrow> int e
                                  | None \<Rightarrow> int (length text_s)))
              | None \<Rightarrow> (start, end_pos)))"

definition validate_span :: "string \<Rightarrow> raw_claim \<Rightarrow> raw_claim" where
  "validate_span original c =
     (case repair_span original c of (start, end_pos) \<Rightarrow>
        c\<lparr>rc_start := Some start, rc_end := Some (min end_pos (int (length original)))\<rparr>)"

definition validate_spans :: "raw_claim list \<Rightarrow> string \<Rightarrow> raw_claim list" where
  "validate_spans claims_data original = map (validate_span original) claims_data"

text \<open>
  The oracle of the extractor: the outcome of the call of each attempt, \<open>Inl msg\<close> a call
  that raised, \<open>Inr r\<close> a reply whose key \<open>claims\<close> may be missing.
\<close>

type_synonym extraction_oracle = "nat \<Rightarrow> string + raw_claim list option"

fun complete_with_retries :: "extraction_oracle \<Rightarrow> nat \<Rightarrow> nat \<Rightarrow> string \<Rightarrow> string + raw_claim list option" where
  "complete_with_retries llm 0 attempt last_error = Inl last_error"
| "complete_with_retries llm (Suc n) attempt last_error =
     (case llm attempt of
        Inr r \<Rightarrow> Inr r
      | Inl msg \<Rightarrow> complete_with_retries llm n (Suc attempt) msg)"

record extraction_stats =
  total_extracted :: nat
  after_filtering :: nat
  filtered_opinions :: nat
  hedged_claims :: nat
  claim_types :: "(ClaimType \<times> nat) list"

datatype extraction_meta = EmptyInputText | ExtractionFailed nat string | Stats extraction_stats

definition factual :: "raw_claim \<Rightarrow> bool" where
  "factual c = (case rc_is_factual c of Some b \<Rightarrow> b | None \<Rightarrow> True)"

definition to_claim :: "(string \<Rightarrow> string) \<Rightarrow> raw_claim \<Rightarrow> error + Claim" where
  "to_claim sha256_hex c =
     (let llm_claim_type = (case rc_claim_type c of Some s \<Rightarrow> s | None \<Rightarrow> ''DIRECT'');
          ct0 = (case parse_claim_type llm_claim_type of
                   Some t \<Rightarrow> t
                 | None \<Rightarrow> detect_claim_type (rc_text c));
          hedging = detect_hedging (rc_text c);
          ct = (if hedging \<and> ct0 \<noteq> HEDGED then HEDGED else ct0);
          start = (case rc_start c of Some i \<Rightarrow> i | None \<Rightarrow> 0);
          end_pos = (case rc_end c of Some i \<Rightarrow> i | None \<Rightarrow> 0)
      in mk_Claim
           \<lparr>c_id = generate_claim_id sha256_hex (rc_text c) start, c_text = rc_text c,
            source_span = (start, end_pos), raw_confidence = rc_confidence c,
            is_factual = factual c, claim_type = ct,
            extraction_confidence =
              (case rc_extraction_confidence c of Some x \<Rightarrow> x | None \<Rightarrow> 0.9),
            hedging_detected = hedging\<rparr>)"

text \<open>The loop that filters the entries and converts them; \<open>claims\<close> is the list built so far.\<close>

fun convert_claims :: "ExtractionConfig \<Rightarrow> (string \<Rightarrow> string) \<Rightarrow> raw_claim list \<Rightarrow> Claim list \<Rightarrow> error + Claim list" where
  "convert_claims cfg sha256_hex [] claims = Inr claims"
| "convert_claims cfg sha256_hex (c # cs) claims =
     (if \<not> include_opinions cfg \<and> \<not> factual c then convert_claims cfg sha256_hex cs claims
      else if length (rc_text c) < min_claim_length cfg then convert_claims cfg sha256_hex cs claims
      else if length claims \<ge> max_claims cfg then Inr claims
      else case to_claim sha256_hex c of
             Inl err \<Rightarrow> Inl err
           | Inr cl \<Rightarrow> convert_claims cfg sha256_hex cs (claims @ [cl]))"

definition all_claim_types :: "ClaimType list" where
  "all_claim_types = [DIRECT, HEDGED, MULTI_HOP, TEMPORAL, COMPARATIVE, QUANTITATIVE]"

definition extract_with_confidence :: "extraction_oracle \<Rightarrow> ExtractionConfig \<Rightarrow> (string \<Rightarrow> string) \<Rightarrow> string \<Rightarrow> error + Claim list \<times> extraction_meta" where
  "extract_with_confidence llm cfg sha256_hex text_s =
     (if strip text_s = [] then Inr ([], EmptyInputText)
      else case complete_with_retries llm (max_retries cfg) 0 ''None'' of
             Inl last_error \<Rightarrow> Inr ([], ExtractionFailed (max_retries cfg) last_error)
           | Inr result \<Rightarrow>
               (let claims_data = validate_spans (case result of Some cs \<Rightarrow> cs | None \<Rightarrow> []) text_s
                in case convert_claims cfg sha256_hex claims_data [] of
                     Inl err \<Rightarrow> Inl err
                   | Inr claims \<Rightarrow>
                       Inr (claims,
                            Stats \<lparr>total_extracted = length claims_data,
                                   after_filtering = length claims,
                                   filtered_opinions = length (filter (\<lambda>c. \<not> factual c) claims_data),
                                   hedged_claims = length (filter hedging_detected claims),
                                   claim_types =
                                     map (\<lambda>ct. (ct, length (filter (\<lambda>c. claim_type c = ct) claims)))
                                       all_claim_types\<rparr>)))"

text \<open>\<open>extract\<close> of the source, the claims alone.\<close>

definition extract_claims :: "extraction_oracle \<Rightarrow> ExtractionConfig \<Rightarrow> (string \<Rightarrow> string) \<Rightarrow> string \<Rightarrow> error + Claim list" where
  "extract_claims llm cfg sha256_hex text_s =
     (case extract_with_confidence llm cfg sha256_hex text_s of
        Inl err \<Rightarrow> Inl err
      | Inr (claims, meta) \<Rightarrow> Inr claims)"

section \<open>Sample data\<close>

text \<open>Concrete values, after the fixtures of the test suite, at which the results below are evaluated.\<close>

definition sample_claim :: Claim where
  "sample_claim =
     \<lparr>c_id = ''test_claim_001'', c_text = ''Python was created in 1991'', source_span = (0, 26),
      raw_confidence = 0.95, is_factual = True, claim_type = TEMPORAL,
      extraction_confidence = 0.95, hedging_detected = False\<rparr>"

definition doubtful_claim :: Claim where
  "doubtful_claim = sample_claim\<lparr>c_id := ''test_claim_002'', raw_confidence := 0.2\<rparr>"

definition sample_evidence :: EvidenceChunk where
  "sample_evidence =
     \<lparr>e_id = ''evidence_001'', e_text = ''Python was first released in 1991.'',
      source = ''python_facts.txt'', similarity_score = 0.92, chunk_index = 0\<rparr>"

definition supporting_alignment :: AlignmentResult where
  "supporting_alignment =
     \<lparr>claim_id = ''test_claim_001'', evidence_id = ''evidence_001'', label = SUPPORTS,
      confidence = 0.9, explanation = ''Evidence directly confirms'', temporal_match = True,
      semantic_score = 0.92, logical_score = 0.88, contradiction_type = NONE,
      negation_detected = False, evidence_date = None, claim_date = None\<rparr>"

definition contradicting_alignment :: AlignmentResult where
  "contradicting_alignment =
     \<lparr>claim_id = ''test_claim_001'', evidence_id = ''evidence_001'', label = CONTRADICTS,
      confidence = 0.9, explanation = ''Evidence contradicts'', temporal_match = True,
      semantic_score = 0.8, logical_score = 0.1, contradiction_type = DIRECT_NEGATION,
      negation_detected = True, evidence_date = None, claim_date = None\<rparr>"

definition weak_alignment :: AlignmentResult where
  "weak_alignment = supporting_alignment\<lparr>label := WEAK_SUPPORT, confidence := 0.6\<rparr>"

definition sample_calibrated :: CalibratedConfidence where
  "sample_calibrated =
     \<lparr>cc_claim_id = ''test_claim_001'', cc_raw_confidence = 0.95, calibrated_confidence = 0.35,
      penalties_applied = [''contradiction_detected''],
      penalty_breakdown = [(''contradiction_detected'', 0.6)]\<rparr>"

definition doubtful_calibrated :: CalibratedConfidence where
  "doubtful_calibrated = sample_calibrated\<lparr>cc_raw_confidence := 0.2, calibrated_confidence := 0\<rparr>"

text \<open>An oracle that labels the pair SUPPORTS and still names a contradiction type.\<close>

definition inconsistent_reply :: alignment_reply where
  "inconsistent_reply =
     \<lparr>r_label = ''SUPPORTS'', r_confidence = 0.9, r_explanation = ''Evidence directly confirms'',
      r_temporal_match = True, r_semantic_score = 0.92, r_logical_score = 0.88,
      r_negation_detected = Some False, r_contradiction_type = Some ''DIRECT_NEGATION'',
      r_claim_date = None, r_evidence_date = None\<rparr>"

definition contradicting_reply :: alignment_reply where
  "contradicting_reply =
     inconsistent_reply\<lparr>r_label := ''CONTRADICTS'', r_explanation := ''Evidence contradicts'',
                        r_negation_detected := Some True\<rparr>"

text \<open>Two stored chunks with one-dimensional embeddings, and an embedder that maps every query to \<open>[1]\<close>.\<close>

definition row_a :: chunk_row where
  "row_a = \<lparr>row_id = ''a'', row_text = ''Python facts'', row_source = ''facts.txt'',
            row_chunk_index = 0, row_embedding = [1]\<rparr>"

definition row_b :: chunk_row where
  "row_b = \<lparr>row_id = ''b'', row_text = ''More facts'', row_source = ''facts.txt'',
            row_chunk_index = 1, row_embedding = [0.5]\<rparr>"

definition chunk_a :: EvidenceChunk where
  "chunk_a = \<lparr>e_id = ''a'', e_text = ''Python facts'', source = ''facts.txt'',
              similarity_score = 1, chunk_index = 0\<rparr>"

definition chunk_b :: EvidenceChunk where
  "chunk_b = \<lparr>e_id = ''b'', e_text = ''More facts'', source = ''facts.txt'',
              similarity_score = 0.5, chunk_index = 1\<rparr>"

text \<open>An entry whose text is not in the input and whose span lies behind its end.\<close>

definition stray_claim :: raw_claim where
  "stray_claim =
     \<lparr>rc_text = ''Java is slow!!'', rc_start = Some 100, rc_end = Some 114, rc_confidence = 0.9,
      rc_is_factual = Some True, rc_claim_type = Some ''DIRECT'', rc_extraction_confidence = None\<rparr>"

text \<open>The same entry with a reported end inside the input.\<close>

definition early_end_claim :: raw_claim where
  "early_end_claim = stray_claim\<lparr>rc_end := Some 3\<rparr>"

section \<open>Evaluating the character classes\<close>

text \<open>
  The character classes on the bits of a character, the lowest bit first: code equations
  that spare the evaluation of a sample the arithmetic on code points.
\<close>

lemma is_space_bits [code]:
  "is_space (Char b0 b1 b2 b3 b4 b5 b6 b7) =
     (if b7 then (\<not> b6 \<and> (if b5 then (\<not> b4 \<and> (\<not> b3 \<and> (\<not> b2
       \<and> (\<not> b1 \<and> \<not> b0)))) else (\<not> b4 \<and> (\<not> b3 \<and> (b2 \<and>
       (\<not> b1 \<and> b0)))))) else (\<not> b6 \<and> (if b5 then (\<not> b4 \<and> (\<not> b3
       \<and> (\<not> b2 \<and> (\<not> b1 \<and> \<not> b0)))) else (if b4 then (b3 \<and> b2)
       else (b3 \<and> (if b2 then \<not> b1 else (b1 \<or> b0)))))))"
  by (cases b0; cases b1; cases b2; cases b3; cases b4; cases b5; cases b6; cases b7;
      simp add: is_space_def code_def)

lemma is_digit_bits [code]:
  "is_digit (Char b0 b1 b2 b3 b4 b5 b6 b7) =
     (\<not> b7 \<and> (\<not> b6 \<and> (b5 \<and> (b4 \<and> (\<not> b3 \<or> (\<not> b2 \<and>
       \<not> b1))))))"
  by (cases b0; cases b1; cases b2; cases b3; cases b4; cases b5; cases b6; cases b7;
      simp add: is_digit_def code_def)

lemma is_word_bits [code]:
  "is_word (Char b0 b1 b2 b3 b4 b5 b6 b7) =
     (if b7 then (if b6 then (if b5 then (\<not> b4 \<or> (b3 \<or> (\<not> b2 \<or> (\<not> b1
       \<or> \<not> b0)))) else (\<not> b4 \<or> (b3 \<or> (\<not> b2 \<or> (\<not> b1 \<or> \<not>
       b0))))) else (b5 \<and> (if b4 then (if b3 then (if b2 then (\<not> b1 \<or> \<not> b0) else
       (if b1 then \<not> b0 else b0)) else (if b2 then (\<not> b1 \<and> b0) else b1)) else (b3
       \<and> (\<not> b2 \<and> (b1 \<and> \<not> b0)))))) else (if b6 then (if b5 then (if b4 then
       (\<not> b3 \<or> (\<not> b2 \<and> (\<not> b1 \<or> \<not> b0))) else (b3 \<or> (b2 \<or>
       (b1 \<or> b0)))) else (if b4 then (\<not> b3 \<or> (if b2 then (b1 \<and> b0) else (\<not>
       b1 \<or> \<not> b0))) else (b3 \<or> (b2 \<or> (b1 \<or> b0))))) else (b5 \<and> (b4 \<and>
       (\<not> b3 \<or> (\<not> b2 \<and> \<not> b1))))))"
  by (cases b0; cases b1; cases b2; cases b3; cases b4; cases b5; cases b6; cases b7;
      simp add: is_word_def code_def)

lemma lower_char_bits [code]:
  "lower_char (Char b0 b1 b2 b3 b4 b5 b6 b7) =
     (if (if b7 then (b6 \<and> (\<not> b5 \<and> (\<not> b4 \<or> (if b3 then (\<not> b2 \<or>
       (\<not> b1 \<or> \<not> b0)) else (\<not> b2 \<or> (\<not> b1 \<or> \<not> b0)))))) else (b6
       \<and> (\<not> b5 \<and> (if b4 then (\<not> b3 \<or> (\<not> b2 \<and> (\<not> b1 \<or>
       \<not> b0))) else (b3 \<or> (b2 \<or> (b1 \<or> b0)))))))
      then Char b0 b1 b2 b3 b4 True b6 b7 else Char b0 b1 b2 b3 b4 b5 b6 b7)"
  by (cases b0; cases b1; cases b2; cases b3; cases b4; cases b5; cases b6; cases b7;
      simp add: lower_char_def code_def char_of_def bit_0)

section \<open>Calibration: which penalties are applied\<close>

lemma sample_claim_not_vague: "detect_vague_language (c_text sample_claim) = False"
  unfolding sample_claim_def by code_simp

lemma evidence_penalty_keys:
  "evidence_penalty cfg als ev (v, ps, bd) = (v', ps', bd') \<Longrightarrow>
     ps' = ps @ (if ev = [] then [''no_evidence'']
                 else if has_contradiction als then [''contradiction_detected'']
                 else if \<not> has_strong_support als then [''weak_evidence_only''] else [])"
  by (simp add: evidence_penalty_def apply_penalty_def split: if_splits)

lemma vague_penalty_keys:
  "vague_penalty cfg c (v, ps, bd) = (v', ps', bd') \<Longrightarrow>
     ps' = ps @ (if detect_vague_language (c_text c) then [''vague_language''] else [])"
  by (simp add: vague_penalty_def apply_penalty_def split: if_splits)

lemma evidence_boost_keys:
  "evidence_boost als ev (v, ps, bd) = (v', ps', bd') \<Longrightarrow>
     ps' = ps \<or> ps' = ps @ [''strong_evidence_boost'']"
  unfolding evidence_boost_def Let_def
  by (auto split: if_splits)

lemma calibrate_state_keys:
  assumes "calibrate_state cfg c als ev = (v, ps, bd)"
  shows "count_list ps ''no_evidence'' + count_list ps ''contradiction_detected''
           + count_list ps ''weak_evidence_only''
         = (if ev \<noteq> [] \<and> \<not> has_contradiction als \<and> has_strong_support als then 0 else 1)"
    and "count_list ps ''no_evidence'' = (if ev = [] then 1 else 0)"
    and "count_list ps ''vague_language'' = (if detect_vague_language (c_text c) then 1 else 0)"
proof -
  obtain v1 ps1 bd1 where s1: "evidence_penalty cfg als ev (raw_confidence c, [], []) = (v1, ps1, bd1)"
    by (cases "evidence_penalty cfg als ev (raw_confidence c, [], [])") auto
  obtain v2 ps2 bd2 where s2: "vague_penalty cfg c (v1, ps1, bd1) = (v2, ps2, bd2)"
    by (cases "vague_penalty cfg c (v1, ps1, bd1)") auto
  have s3: "evidence_boost als ev (v2, ps2, bd2) = (v, ps, bd)"
    using assms s1 s2 by (simp add: calibrate_state_def)
  note p1 = evidence_penalty_keys[OF s1]
  note p2 = vague_penalty_keys[OF s2]
  from evidence_boost_keys[OF s3]
  show "count_list ps ''no_evidence'' + count_list ps ''contradiction_detected''
           + count_list ps ''weak_evidence_only''
         = (if ev \<noteq> [] \<and> \<not> has_contradiction als \<and> has_strong_support als then 0 else 1)"
    unfolding p2 p1 by (elim disjE) simp_all
  from evidence_boost_keys[OF s3]
  show "count_list ps ''no_evidence'' = (if ev = [] then 1 else 0)"
    unfolding p2 p1 by (elim disjE) simp_all
  from evidence_boost_keys[OF s3]
  show "count_list ps ''vague_language'' = (if detect_vague_language (c_text c) then 1 else 0)"
    unfolding p2 p1 by (elim disjE) simp_all
qed

lemma calibrate_Inr:
  "calibrate cfg c als ev = Inr k \<Longrightarrow>
     \<exists>v ps bd. calibrate_state cfg c als ev = (v, ps, bd) \<and>
       k = \<lparr>cc_claim_id = c_id c, cc_raw_confidence = raw_confidence c,
            calibrated_confidence = max 0 (min 1 v),
            penalties_applied = ps, penalty_breakdown = bd\<rparr>"
  by (cases "calibrate_state cfg c als ev")
     (simp add: calibrate_def mk_CalibratedConfidence_def split: if_splits)

lemma calibrate_returns:
  "Claim_ok c \<Longrightarrow> \<exists>k. calibrate cfg c als ev = Inr k"
  by (cases "calibrate_state cfg c als ev")
     (simp add: calibrate_def mk_CalibratedConfidence_def CalibratedConfidence_ok_def Claim_ok_def
        unit_range_def)

lemma calibrate_no_evidence:
  "calibrate default_CalibrationConfig sample_claim [] [] =
     Inr \<lparr>cc_claim_id = ''test_claim_001'', cc_raw_confidence = 0.95,
          calibrated_confidence = 0.55, penalties_applied = [''no_evidence''],
          penalty_breakdown = [(''no_evidence'', 0.4)]\<rparr>"
proof -
  have "calibrate_state default_CalibrationConfig sample_claim [] [] =
          (0.55, [''no_evidence''], [(''no_evidence'', 0.4)])"
    using sample_claim_not_vague
    by (simp add: calibrate_state_def evidence_penalty_def vague_penalty_def evidence_boost_def
          apply_penalty_def has_strong_support_def default_CalibrationConfig_def)
       (simp add: sample_claim_def)
  then show ?thesis
    by (simp add: calibrate_def mk_CalibratedConfidence_def CalibratedConfidence_ok_def
          unit_range_def sample_claim_def)
qed

lemma calibrate_strong_support:
  "calibrate default_CalibrationConfig sample_claim [supporting_alignment] [sample_evidence] =
     Inr \<lparr>cc_claim_id = ''test_claim_001'', cc_raw_confidence = 0.95,
          calibrated_confidence = 1, penalties_applied = [''strong_evidence_boost''],
          penalty_breakdown = [(''strong_evidence_boost'', - 0.1)]\<rparr>"
proof -
  have q: "compute_evidence_quality [supporting_alignment] [sample_evidence] = 1"
    by (simp add: compute_evidence_quality_def quality_score_def supporting_alignment_def
          sample_evidence_def)
  have s: "has_strong_support [supporting_alignment]" "\<not> has_contradiction [supporting_alignment]"
    by (simp_all add: has_strong_support_def has_contradiction_def supporting_alignment_def)
  have "calibrate_state default_CalibrationConfig sample_claim [supporting_alignment] [sample_evidence] =
          (1.05, [''strong_evidence_boost''], [(''strong_evidence_boost'', - 0.1)])"
    using sample_claim_not_vague s
    by (simp add: calibrate_state_def evidence_penalty_def vague_penalty_def evidence_boost_def q)
       (simp add: sample_claim_def)
  then show ?thesis
    by (simp add: calibrate_def mk_CalibratedConfidence_def CalibratedConfidence_ok_def
          unit_range_def sample_claim_def)
qed

text \<open>
  C2, as amended. For every call of \<open>calibrate\<close> that returns: at most one of the keys
  \<open>no_evidence\<close>, \<open>contradiction_detected\<close>, \<open>weak_evidence_only\<close> is in
  \<open>penalties_applied\<close>, and at most once; one of them is there unless the evidence is
  not empty, no alignment is CONTRADICTS and some alignment is SUPPORTS with confidence above 0.7,
  and then none is. \<open>vague_language\<close> is there, once, exactly when the text of the claim
  matches the vague patterns, whichever of the three was applied.
\<close>

theorem calibrate_penalty_rules:
  assumes "calibrate cfg c als ev = Inr k"
  shows "count_list (penalties_applied k) ''no_evidence''
         + count_list (penalties_applied k) ''contradiction_detected''
         + count_list (penalties_applied k) ''weak_evidence_only''
         = (if ev \<noteq> [] \<and> \<not> has_contradiction als \<and> has_strong_support als then 0 else 1)
       \<and> count_list (penalties_applied k) ''vague_language''
         = (if detect_vague_language (c_text c) then 1 else 0)"
proof -
  from calibrate_Inr[OF assms] obtain v ps bd where
    st: "calibrate_state cfg c als ev = (v, ps, bd)" and ps: "penalties_applied k = ps"
    by auto
  show ?thesis
    unfolding ps using calibrate_state_keys(1)[OF st] calibrate_state_keys(3)[OF st] by simp
qed

theorem calibrate_penalty_rules_witness:
  "calibrate default_CalibrationConfig sample_claim [] [] =
     Inr \<lparr>cc_claim_id = ''test_claim_001'', cc_raw_confidence = 0.95,
          calibrated_confidence = 0.55, penalties_applied = [''no_evidence''],
          penalty_breakdown = [(''no_evidence'', 0.4)]\<rparr>
   \<and> count_list [''no_evidence''] ''no_evidence''
       + count_list [''no_evidence''] ''contradiction_detected''
       + count_list [''no_evidence''] ''weak_evidence_only'' = (1::nat)
   \<and> count_list [''no_evidence''] ''vague_language'' = (0::nat)"
  using calibrate_penalty_rules[OF calibrate_no_evidence] calibrate_no_evidence by simp

text \<open>
  The claim as it stands fails: with strong support and no contradiction none of the three
  keys is applied.
\<close>

theorem calibrate_penalty_rules_counterexample:
  "calibrate default_CalibrationConfig sample_claim [supporting_alignment] [sample_evidence] =
     Inr \<lparr>cc_claim_id = ''test_claim_001'', cc_raw_confidence = 0.95,
          calibrated_confidence = 1, penalties_applied = [''strong_evidence_boost''],
          penalty_breakdown = [(''strong_evidence_boost'', - 0.1)]\<rparr>
   \<and> ''no_evidence'' \<notin> set [''strong_evidence_boost'']
   \<and> ''contradiction_detected'' \<notin> set [''strong_evidence_boost'']
   \<and> ''weak_evidence_only'' \<notin> set [''strong_evidence_boost'']"
  using calibrate_strong_support by simp

section \<open>Verdicts\<close>

lemma compute_Inr:
  "compute cfg c ev als cal = Inr v \<Longrightarrow>
     alignments v = als
     \<and> contradiction_detected v = list_ex (\<lambda>a. label a = CONTRADICTS) als
     \<and> evidence_strength v = compute_evidence_strength als ev
     \<and> hallucination_risk v =
         (if list_ex (\<lambda>a. label a = CONTRADICTS) als
          then min 1 (confidence_weight cfg * cc_raw_confidence cal
                      + evidence_weight cfg * (1 - compute_evidence_strength als ev) + 0.2)
          else confidence_weight cfg * cc_raw_confidence cal
               + evidence_weight cfg * (1 - compute_evidence_strength als ev))"
  by (auto simp: compute_def mk_Verdict_def Let_def split: if_splits)

lemma contradicting_strength:
  "compute_evidence_strength [contradicting_alignment] [sample_evidence] = 0.0405"
  by (simp add: compute_evidence_strength_def weighted_score_def contradicting_alignment_def)

lemma supporting_strength:
  "compute_evidence_strength [supporting_alignment] [sample_evidence] = 0.81"
  by (simp add: compute_evidence_strength_def weighted_score_def supporting_alignment_def)

lemma compute_contradicting:
  "compute default_VerdictConfig sample_claim [sample_evidence] [contradicting_alignment]
     sample_calibrated =
   Inr \<lparr>claim = sample_claim, v_label = HALLUCINATED, hallucination_risk = 1,
        evidence_strength = 0.0405, v_calibrated_confidence = sample_calibrated,
        alignments = [contradicting_alignment], best_evidence = Some sample_evidence,
        contradiction_detected = True\<rparr>"
proof -
  have c: "list_ex (\<lambda>a. label a = CONTRADICTS) [contradicting_alignment]"
    by (simp add: contradicting_alignment_def)
  have b: "find_best_evidence [contradicting_alignment] [sample_evidence] = Some sample_evidence"
    by (simp add: find_best_evidence_def contradicting_alignment_def)
  show ?thesis
    unfolding compute_def Let_def contradicting_strength b
    using c
    by (simp add: mk_Verdict_def Verdict_ok_def unit_range_def default_VerdictConfig_def
          sample_calibrated_def)
qed

text \<open>
  C3. For every Verdict that \<open>compute\<close> produces, \<open>contradiction_detected\<close> is true
  if and only if some alignment of the verdict has the label CONTRADICTS.
\<close>

theorem compute_contradiction_iff:
  "compute cfg c ev als cal = Inr v \<Longrightarrow>
     contradiction_detected v = (\<exists>a \<in> set (alignments v). label a = CONTRADICTS)"
  using compute_Inr[of cfg c ev als cal v] by (simp add: list_ex_iff)

theorem compute_contradiction_iff_witness:
  "compute default_VerdictConfig sample_claim [sample_evidence] [contradicting_alignment]
     sample_calibrated =
   Inr \<lparr>claim = sample_claim, v_label = HALLUCINATED, hallucination_risk = 1,
        evidence_strength = 0.0405, v_calibrated_confidence = sample_calibrated,
        alignments = [contradicting_alignment], best_evidence = Some sample_evidence,
        contradiction_detected = True\<rparr>
   \<and> (\<exists>a \<in> set [contradicting_alignment]. label a = CONTRADICTS)"
  using compute_contradiction_iff[OF compute_contradicting] compute_contradicting by simp

section \<open>Monotonicity of the risk\<close>

lemma compute_supporting:
  "compute default_VerdictConfig sample_claim [sample_evidence] [supporting_alignment]
     sample_calibrated =
   Inr \<lparr>claim = sample_claim, v_label = GROUNDED, hallucination_risk = 0.494,
        evidence_strength = 0.81, v_calibrated_confidence = sample_calibrated,
        alignments = [supporting_alignment], best_evidence = Some sample_evidence,
        contradiction_detected = False\<rparr>"
proof -
  have c: "\<not> list_ex (\<lambda>a. label a = CONTRADICTS) [supporting_alignment]"
    by (simp add: supporting_alignment_def)
  have b: "find_best_evidence [supporting_alignment] [sample_evidence] = Some sample_evidence"
    by (simp add: find_best_evidence_def supporting_alignment_def sample_evidence_def)
  show ?thesis
    unfolding compute_def Let_def supporting_strength b
    using c
    by (simp add: mk_Verdict_def Verdict_ok_def unit_range_def default_VerdictConfig_def
          sample_calibrated_def)
qed

lemma compute_supporting_doubtful:
  "compute default_VerdictConfig sample_claim [sample_evidence] [supporting_alignment]
     doubtful_calibrated =
   Inr \<lparr>claim = sample_claim, v_label = GROUNDED, hallucination_risk = 0.194,
        evidence_strength = 0.81, v_calibrated_confidence = doubtful_calibrated,
        alignments = [supporting_alignment], best_evidence = Some sample_evidence,
        contradiction_detected = False\<rparr>"
proof -
  have c: "\<not> list_ex (\<lambda>a. label a = CONTRADICTS) [supporting_alignment]"
    by (simp add: supporting_alignment_def)
  have b: "find_best_evidence [supporting_alignment] [sample_evidence] = Some sample_evidence"
    by (simp add: find_best_evidence_def supporting_alignment_def sample_evidence_def)
  show ?thesis
    unfolding compute_def Let_def supporting_strength b
    using c
    by (simp add: mk_Verdict_def Verdict_ok_def unit_range_def default_VerdictConfig_def
          sample_calibrated_def doubtful_calibrated_def)
qed

text \<open>
  C9. With valid weights, and the alignments (hence the contradiction flag) fixed, a higher
  raw confidence never gives a lower \<open>hallucination_risk\<close>; with the raw confidence and
  the contradiction flag fixed, alignments of a higher evidence strength never give a higher
  risk. The risk is \<open>confidence_weight * raw + evidence_weight * (1 - strength)\<close>, plus
  0.2 and clamped to 1 when a contradiction is detected.
\<close>

theorem risk_monotone:
  assumes "VerdictConfig_ok cfg"
  shows "(compute cfg c ev als cal = Inr v \<and> compute cfg c ev als cal' = Inr v'
            \<and> cc_raw_confidence cal \<le> cc_raw_confidence cal'
          \<longrightarrow> hallucination_risk v \<le> hallucination_risk v')
       \<and> (compute cfg c ev als cal = Inr v \<and> compute cfg c ev2 als2 cal = Inr v2
            \<and> list_ex (\<lambda>a. label a = CONTRADICTS) als = list_ex (\<lambda>a. label a = CONTRADICTS) als2
            \<and> compute_evidence_strength als ev \<le> compute_evidence_strength als2 ev2
          \<longrightarrow> hallucination_risk v2 \<le> hallucination_risk v)
       \<and> (compute cfg c ev als cal = Inr v
          \<longrightarrow> hallucination_risk v =
                (if contradiction_detected v
                 then min 1 (confidence_weight cfg * cc_raw_confidence cal
                             + evidence_weight cfg * (1 - evidence_strength v) + 0.2)
                 else confidence_weight cfg * cc_raw_confidence cal
                      + evidence_weight cfg * (1 - evidence_strength v)))"
proof -
  have w: "0 \<le> confidence_weight cfg" "0 \<le> evidence_weight cfg"
    using assms by (simp_all add: VerdictConfig_ok_def unit_range_def)
  have 1: "hallucination_risk v \<le> hallucination_risk v'"
    if "compute cfg c ev als cal = Inr v" "compute cfg c ev als cal' = Inr v'"
       "cc_raw_confidence cal \<le> cc_raw_confidence cal'"
  proof -
    have "confidence_weight cfg * cc_raw_confidence cal
            \<le> confidence_weight cfg * cc_raw_confidence cal'"
      using w(1) that(3) by (rule mult_left_mono[rotated])
    then show ?thesis
      using compute_Inr[OF that(1)] compute_Inr[OF that(2)] by auto
  qed
  have 2: "hallucination_risk v2 \<le> hallucination_risk v"
    if "compute cfg c ev als cal = Inr v" "compute cfg c ev2 als2 cal = Inr v2"
       "list_ex (\<lambda>a. label a = CONTRADICTS) als = list_ex (\<lambda>a. label a = CONTRADICTS) als2"
       "compute_evidence_strength als ev \<le> compute_evidence_strength als2 ev2"
  proof -
    have "evidence_weight cfg * (1 - compute_evidence_strength als2 ev2)
            \<le> evidence_weight cfg * (1 - compute_evidence_strength als ev)"
      using w(2) that(4) by (intro mult_left_mono) simp_all
    then show ?thesis
      using compute_Inr[OF that(1)] compute_Inr[OF that(2)] that(3) by auto
  qed
  have 3: "hallucination_risk v =
             (if contradiction_detected v
              then min 1 (confidence_weight cfg * cc_raw_confidence cal
                          + evidence_weight cfg * (1 - evidence_strength v) + 0.2)
              else confidence_weight cfg * cc_raw_confidence cal
                   + evidence_weight cfg * (1 - evidence_strength v))"
    if "compute cfg c ev als cal = Inr v"
    using compute_Inr[OF that] by simp
  from 1 2 3 show ?thesis by blast
qed

lemma default_VerdictConfig_ok: "VerdictConfig_ok default_VerdictConfig"
  by (simp add: VerdictConfig_ok_def default_VerdictConfig_def unit_range_def)

lemma compute_weak:
  "compute default_VerdictConfig sample_claim [sample_evidence] [weak_alignment]
     sample_calibrated =
   Inr \<lparr>claim = sample_claim, v_label = HALLUCINATED, hallucination_risk = 0.818,
        evidence_strength = 0.27, v_calibrated_confidence = sample_calibrated,
        alignments = [weak_alignment], best_evidence = Some sample_evidence,
        contradiction_detected = False\<rparr>"
proof -
  have c: "\<not> list_ex (\<lambda>a. label a = CONTRADICTS) [weak_alignment]"
    by (simp add: weak_alignment_def supporting_alignment_def)
  have b: "find_best_evidence [weak_alignment] [sample_evidence] = Some sample_evidence"
    by (simp add: find_best_evidence_def weak_alignment_def supporting_alignment_def
          sample_evidence_def)
  have s: "compute_evidence_strength [weak_alignment] [sample_evidence] = 0.27"
    by (simp add: compute_evidence_strength_def weighted_score_def weak_alignment_def
          supporting_alignment_def)
  show ?thesis
    unfolding compute_def Let_def s b
    using c
    by (simp add: mk_Verdict_def Verdict_ok_def unit_range_def default_VerdictConfig_def
          sample_calibrated_def)
qed

theorem risk_monotone_witness:
  "VerdictConfig_ok default_VerdictConfig
   \<and> compute default_VerdictConfig sample_claim [sample_evidence] [supporting_alignment]
       doubtful_calibrated =
     Inr \<lparr>claim = sample_claim, v_label = GROUNDED, hallucination_risk = 0.194,
          evidence_strength = 0.81, v_calibrated_confidence = doubtful_calibrated,
          alignments = [supporting_alignment], best_evidence = Some sample_evidence,
          contradiction_detected = False\<rparr>
   \<and> compute default_VerdictConfig sample_claim [sample_evidence] [supporting_alignment]
       sample_calibrated =
     Inr \<lparr>claim = sample_claim, v_label = GROUNDED, hallucination_risk = 0.494,
          evidence_strength = 0.81, v_calibrated_confidence = sample_calibrated,
          alignments = [supporting_alignment], best_evidence = Some sample_evidence,
          contradiction_detected = False\<rparr>
   \<and> compute default_VerdictConfig sample_claim [sample_evidence] [weak_alignment]
       sample_calibrated =
     Inr \<lparr>claim = sample_claim, v_label = HALLUCINATED, hallucination_risk = 0.818,
          evidence_strength = 0.27, v_calibrated_confidence = sample_calibrated,
          alignments = [weak_alignment], best_evidence = Some sample_evidence,
          contradiction_detected = False\<rparr>
   \<and> cc_raw_confidence doubtful_calibrated \<le> cc_raw_confidence sample_calibrated
   \<and> (0.194 :: real) \<le> 0.494
   \<and> list_ex (\<lambda>a. label a = CONTRADICTS) [weak_alignment]
       = list_ex (\<lambda>a. label a = CONTRADICTS) [supporting_alignment]
   \<and> compute_evidence_strength [weak_alignment] [sample_evidence]
       \<le> compute_evidence_strength [supporting_alignment] [sample_evidence]
   \<and> (0.494 :: real) \<le> 0.818"
  using risk_monotone[OF default_VerdictConfig_ok,
          of sample_claim "[sample_evidence]" "[supporting_alignment]" doubtful_calibrated _
             sample_calibrated]
        risk_monotone[OF default_VerdictConfig_ok,
          of sample_claim "[sample_evidence]" "[weak_alignment]" sample_calibrated _ _ _
             "[sample_evidence]" "[supporting_alignment]"]
        compute_supporting compute_supporting_doubtful compute_weak default_VerdictConfig_ok
  by (simp add: doubtful_calibrated_def sample_calibrated_def weak_alignment_def
        supporting_alignment_def compute_evidence_strength_def weighted_score_def)

section \<open>A claim without evidence\<close>

lemma compute_no_alignments:
  assumes "unit_range (cc_raw_confidence cal)"
  shows "compute default_VerdictConfig c [] [] cal =
           Inr \<lparr>claim = c, v_label = HALLUCINATED,
                hallucination_risk = 0.4 * cc_raw_confidence cal + 0.6,
                evidence_strength = 0, v_calibrated_confidence = cal, alignments = [],
                best_evidence = None, contradiction_detected = False\<rparr>"
  using assms
  by (simp add: compute_def compute_evidence_strength_def find_best_evidence_def mk_Verdict_def
        Verdict_ok_def unit_range_def default_VerdictConfig_def)

lemma analyze_claim_no_evidence:
  assumes "calibrate ccfg c [] [] = Inr k"
  shows "analyze_claim llm ccfg default_VerdictConfig c [] =
           Inr \<lparr>claim = c, v_label = HALLUCINATED,
                hallucination_risk = 0.4 * raw_confidence c + 0.6,
                evidence_strength = 0, v_calibrated_confidence = k, alignments = [],
                best_evidence = None, contradiction_detected = False\<rparr>"
proof -
  from calibrate_Inr[OF assms] have r: "cc_raw_confidence k = raw_confidence c"
    by auto
  from assms have "unit_range (cc_raw_confidence k)"
    by (cases "calibrate_state ccfg c [] []")
       (auto simp: calibrate_def mk_CalibratedConfidence_def CalibratedConfidence_ok_def
          split: if_splits)
  from compute_no_alignments[OF this] show ?thesis
    by (simp add: analyze_claim_def evaluate_def assms r)
qed

text \<open>
  C6, as amended. For every valid claim processed with an empty list of retrieved evidence,
  under the default verdict thresholds and weights: a verdict is produced, its list of
  alignments is empty, its \<open>evidence_strength\<close> is 0, the key \<open>no_evidence\<close> is in
  \<open>penalties_applied\<close> exactly once, and its label is HALLUCINATED, whatever the raw
  confidence of the claim is.
\<close>

theorem no_evidence_verdict:
  assumes "Claim_ok c"
  shows "\<exists>v. analyze_claim llm ccfg default_VerdictConfig c [] = Inr v
           \<and> alignments v = [] \<and> evidence_strength v = 0
           \<and> count_list (penalties_applied (v_calibrated_confidence v)) ''no_evidence'' = 1
           \<and> v_label v = HALLUCINATED"
proof -
  from calibrate_returns[OF assms] obtain k where k: "calibrate ccfg c [] [] = Inr k"
    by blast
  from calibrate_Inr[OF k] obtain v ps bd where
    st: "calibrate_state ccfg c [] [] = (v, ps, bd)" and ps: "penalties_applied k = ps"
    by auto
  have "count_list (penalties_applied k) ''no_evidence'' = 1"
    unfolding ps using calibrate_state_keys(2)[OF st] by simp
  then show ?thesis
    using analyze_claim_no_evidence[OF k] by simp
qed

lemma sample_claim_ok: "Claim_ok sample_claim"
  by (simp add: Claim_ok_def sample_claim_def unit_range_def)

lemma doubtful_claim_ok: "Claim_ok doubtful_claim"
  by (simp add: Claim_ok_def doubtful_claim_def sample_claim_def unit_range_def)

theorem no_evidence_verdict_witness:
  "Claim_ok sample_claim
   \<and> (\<exists>v. analyze_claim (\<lambda>a b. Inl ''unavailable'') default_CalibrationConfig
              default_VerdictConfig sample_claim [] = Inr v
           \<and> alignments v = [] \<and> evidence_strength v = 0
           \<and> count_list (penalties_applied (v_calibrated_confidence v)) ''no_evidence'' = 1
           \<and> v_label v = HALLUCINATED)"
  using no_evidence_verdict[OF sample_claim_ok] sample_claim_ok by simp

text \<open>
  The claim as it stands fails: a claim of raw confidence 0.2, below 0.5, without evidence is
  HALLUCINATED as well.
\<close>

lemma calibrate_doubtful:
  "calibrate default_CalibrationConfig doubtful_claim [] [] =
     Inr \<lparr>cc_claim_id = ''test_claim_002'', cc_raw_confidence = 0.2,
          calibrated_confidence = 0, penalties_applied = [''no_evidence''],
          penalty_breakdown = [(''no_evidence'', 0.4)]\<rparr>"
proof -
  have "detect_vague_language (c_text doubtful_claim) = False"
    using sample_claim_not_vague by (simp add: doubtful_claim_def)
  then have "calibrate_state default_CalibrationConfig doubtful_claim [] [] =
          (- 0.2, [''no_evidence''], [(''no_evidence'', 0.4)])"
    by (simp add: calibrate_state_def evidence_penalty_def vague_penalty_def evidence_boost_def
          apply_penalty_def has_strong_support_def default_CalibrationConfig_def)
       (simp add: doubtful_claim_def sample_claim_def)
  then show ?thesis
    by (simp add: calibrate_def mk_CalibratedConfidence_def CalibratedConfidence_ok_def
          unit_range_def doubtful_claim_def sample_claim_def)
qed

theorem no_evidence_verdict_counterexample:
  "analyze_claim (\<lambda>a b. Inl ''unavailable'') default_CalibrationConfig default_VerdictConfig
     doubtful_claim [] =
   Inr \<lparr>claim = doubtful_claim, v_label = HALLUCINATED, hallucination_risk = 0.68,
        evidence_strength = 0,
        v_calibrated_confidence =
          \<lparr>cc_claim_id = ''test_claim_002'', cc_raw_confidence = 0.2,
           calibrated_confidence = 0, penalties_applied = [''no_evidence''],
           penalty_breakdown = [(''no_evidence'', 0.4)]\<rparr>,
        alignments = [], best_evidence = None, contradiction_detected = False\<rparr>
   \<and> raw_confidence doubtful_claim < 0.5"
  using analyze_claim_no_evidence[OF calibrate_doubtful]
  by (simp add: doubtful_claim_def sample_claim_def)

section \<open>Alignment: label and contradiction type\<close>

lemma detect_contradiction_type_not_NONE:
  "detect_contradiction_type a b x y \<noteq> NONE"
  by (simp add: detect_contradiction_type_def)

lemma heuristic_label_types:
  "heuristic_label nm tm sem logical = (lab, ct) \<Longrightarrow> (lab = CONTRADICTS) = (ct \<noteq> NONE)"
  by (auto simp: heuristic_label_def Let_def split: if_splits)

lemma mk_AlignmentResult_Inr: "mk_AlignmentResult a = Inr r \<Longrightarrow> a = r"
  by (simp add: mk_AlignmentResult_def split: if_splits)

lemma heuristic_evaluate_types:
  assumes "heuristic_evaluate c e msg = Inr r"
  shows "(label r = CONTRADICTS) = (contradiction_type r \<noteq> NONE)"
proof -
  from assms obtain nm tm sem logical lab ct where
    hl: "heuristic_label nm tm sem logical = (lab, ct)" and
    r: "label r = lab" "contradiction_type r = ct"
    unfolding heuristic_evaluate_def Let_def
    by (auto split: prod.splits dest!: mk_AlignmentResult_Inr)
  from heuristic_label_types[OF hl] r show ?thesis by simp
qed

lemma evaluate_single_oracle:
  assumes "llm (c_text c) (e_text e) = Inr rep" and "evaluate_single llm c e = Inr r"
  shows "(label r = CONTRADICTS \<longrightarrow> contradiction_type r \<noteq> NONE)
       \<and> (label r \<noteq> CONTRADICTS \<longrightarrow> contradiction_type r = reply_contradiction_type rep)"
proof -
  obtain lab where lab: "parse_label (r_label rep) = Some lab"
    using assms by (cases "parse_label (r_label rep)") (simp_all add: evaluate_single_def Let_def)
  have iff: "(lab = CONTRADICTS) = (r_label rep = ''CONTRADICTS'')"
    using lab by (auto simp: parse_label_def split: if_splits)
  have "label r = lab
      \<and> contradiction_type r =
          (if r_label rep = ''CONTRADICTS'' \<and> reply_contradiction_type rep = NONE
           then detect_contradiction_type (c_text c) (e_text e) (detect_negation (c_text c))
                  (detect_negation (e_text e))
           else reply_contradiction_type rep)"
    using assms lab
    by (auto simp: evaluate_single_def Let_def mk_AlignmentResult_def split: if_splits)
  then show ?thesis
    using iff detect_contradiction_type_not_NONE by auto
qed

lemma evaluate_single_reply:
  assumes "llm (c_text c) (e_text e) = Inr rep"
    and "parse_label (r_label rep) = Some lab"
    and "r_label rep = ''CONTRADICTS'' \<Longrightarrow> reply_contradiction_type rep \<noteq> NONE"
    and "r_negation_detected rep = Some b"
    and "unit_range (r_confidence rep)" "unit_range (r_semantic_score rep)"
        "unit_range (r_logical_score rep)"
  shows "evaluate_single llm c e =
     Inr \<lparr>claim_id = c_id c, evidence_id = e_id e, label = lab,
          confidence = r_confidence rep, explanation = r_explanation rep,
          temporal_match = r_temporal_match rep,
          semantic_score = r_semantic_score rep, logical_score = r_logical_score rep,
          contradiction_type = reply_contradiction_type rep,
          negation_detected = b,
          evidence_date = r_evidence_date rep, claim_date = r_claim_date rep\<rparr>"
  using assms
  by (auto simp: evaluate_single_def Let_def mk_AlignmentResult_def AlignmentResult_ok_def)

lemma inconsistent_reply_type: "reply_contradiction_type inconsistent_reply = DIRECT_NEGATION"
  by (simp add: reply_contradiction_type_def inconsistent_reply_def parse_contradiction_type_def)

lemma contradicting_reply_type: "reply_contradiction_type contradicting_reply = DIRECT_NEGATION"
  by (simp add: reply_contradiction_type_def contradicting_reply_def inconsistent_reply_def
        parse_contradiction_type_def)

lemma evaluate_single_inconsistent:
  "evaluate_single (\<lambda>a b. Inr inconsistent_reply) sample_claim sample_evidence =
     Inr \<lparr>claim_id = ''test_claim_001'', evidence_id = ''evidence_001'', label = SUPPORTS,
          confidence = 0.9, explanation = ''Evidence directly confirms'', temporal_match = True,
          semantic_score = 0.92, logical_score = 0.88, contradiction_type = DIRECT_NEGATION,
          negation_detected = False, evidence_date = None, claim_date = None\<rparr>"
proof -
  have "evaluate_single (\<lambda>a b. Inr inconsistent_reply) sample_claim sample_evidence =
     Inr \<lparr>claim_id = c_id sample_claim, evidence_id = e_id sample_evidence, label = SUPPORTS,
          confidence = r_confidence inconsistent_reply,
          explanation = r_explanation inconsistent_reply,
          temporal_match = r_temporal_match inconsistent_reply,
          semantic_score = r_semantic_score inconsistent_reply,
          logical_score = r_logical_score inconsistent_reply,
          contradiction_type = reply_contradiction_type inconsistent_reply,
          negation_detected = False,
          evidence_date = r_evidence_date inconsistent_reply,
          claim_date = r_claim_date inconsistent_reply\<rparr>"
    by (rule evaluate_single_reply)
       (simp_all add: inconsistent_reply_def parse_label_def unit_range_def)
  then show ?thesis
    by (simp add: inconsistent_reply_type)
       (simp add: inconsistent_reply_def sample_claim_def sample_evidence_def)
qed

lemma evaluate_single_contradicting:
  "evaluate_single (\<lambda>a b. Inr contradicting_reply) sample_claim sample_evidence =
     Inr \<lparr>claim_id = ''test_claim_001'', evidence_id = ''evidence_001'', label = CONTRADICTS,
          confidence = 0.9, explanation = ''Evidence contradicts'', temporal_match = True,
          semantic_score = 0.92, logical_score = 0.88, contradiction_type = DIRECT_NEGATION,
          negation_detected = True, evidence_date = None, claim_date = None\<rparr>"
proof -
  have "evaluate_single (\<lambda>a b. Inr contradicting_reply) sample_claim sample_evidence =
     Inr \<lparr>claim_id = c_id sample_claim, evidence_id = e_id sample_evidence, label = CONTRADICTS,
          confidence = r_confidence contradicting_reply,
          explanation = r_explanation contradicting_reply,
          temporal_match = r_temporal_match contradicting_reply,
          semantic_score = r_semantic_score contradicting_reply,
          logical_score = r_logical_score contradicting_reply,
          contradiction_type = reply_contradiction_type contradicting_reply,
          negation_detected = True,
          evidence_date = r_evidence_date contradicting_reply,
          claim_date = r_claim_date contradicting_reply\<rparr>"
    by (rule evaluate_single_reply)
       (simp_all add: contradicting_reply_type,
        simp_all add: contradicting_reply_def inconsistent_reply_def parse_label_def
          unit_range_def)
  then show ?thesis
    by (simp add: contradicting_reply_type)
       (simp add: contradicting_reply_def inconsistent_reply_def sample_claim_def
          sample_evidence_def)
qed

text \<open>
  C1, as amended. For every AlignmentResult that \<open>evaluate_single\<close> returns: if its label
  is CONTRADICTS then its \<open>contradiction_type\<close> is not NONE; if its label is not
  CONTRADICTS, then on the heuristic fallback its \<open>contradiction_type\<close> is NONE, and on
  the oracle path it is the type the oracle gave (NONE when the key is missing or its value
  is not a contradiction type): the evaluator does not reset it.
\<close>

theorem evaluate_single_types:
  assumes "evaluate_single llm c e = Inr r"
  shows "(label r = CONTRADICTS \<longrightarrow> contradiction_type r \<noteq> NONE)
       \<and> (label r \<noteq> CONTRADICTS \<longrightarrow>
            contradiction_type r =
              (case llm (c_text c) (e_text e) of
                 Inl msg \<Rightarrow> NONE
               | Inr rep \<Rightarrow> reply_contradiction_type rep))"
proof (cases "llm (c_text c) (e_text e)")
  case (Inl msg)
  with assms have "heuristic_evaluate c e msg = Inr r"
    by (simp add: evaluate_single_def Let_def)
  from heuristic_evaluate_types[OF this] show ?thesis
    by (simp add: Inl)
next
  case (Inr rep)
  from evaluate_single_oracle[OF Inr assms] show ?thesis
    by (simp add: Inr)
qed

theorem evaluate_single_types_witness:
  "evaluate_single (\<lambda>a b. Inr contradicting_reply) sample_claim sample_evidence =
     Inr \<lparr>claim_id = ''test_claim_001'', evidence_id = ''evidence_001'', label = CONTRADICTS,
          confidence = 0.9, explanation = ''Evidence contradicts'', temporal_match = True,
          semantic_score = 0.92, logical_score = 0.88, contradiction_type = DIRECT_NEGATION,
          negation_detected = True, evidence_date = None, claim_date = None\<rparr>
   \<and> DIRECT_NEGATION \<noteq> NONE
   \<and> evaluate_single (\<lambda>a b. Inr inconsistent_reply) sample_claim sample_evidence =
     Inr \<lparr>claim_id = ''test_claim_001'', evidence_id = ''evidence_001'', label = SUPPORTS,
          confidence = 0.9, explanation = ''Evidence directly confirms'', temporal_match = True,
          semantic_score = 0.92, logical_score = 0.88, contradiction_type = DIRECT_NEGATION,
          negation_detected = False, evidence_date = None, claim_date = None\<rparr>
   \<and> SUPPORTS \<noteq> CONTRADICTS
   \<and> DIRECT_NEGATION = reply_contradiction_type inconsistent_reply"
  using evaluate_single_types[OF evaluate_single_contradicting]
        evaluate_single_types[OF evaluate_single_inconsistent]
        evaluate_single_contradicting evaluate_single_inconsistent
  by simp

text \<open>
  The claim as it stands fails: the oracle's SUPPORTS with the type DIRECT_NEGATION is
  returned as it is.
\<close>

theorem evaluate_single_types_counterexample:
  "evaluate_single (\<lambda>a b. Inr inconsistent_reply) sample_claim sample_evidence =
     Inr \<lparr>claim_id = ''test_claim_001'', evidence_id = ''evidence_001'', label = SUPPORTS,
          confidence = 0.9, explanation = ''Evidence directly confirms'', temporal_match = True,
          semantic_score = 0.92, logical_score = 0.88, contradiction_type = DIRECT_NEGATION,
          negation_detected = False, evidence_date = None, claim_date = None\<rparr>
   \<and> SUPPORTS \<noteq> CONTRADICTS \<and> DIRECT_NEGATION \<noteq> NONE"
  using evaluate_single_inconsistent by simp

section \<open>Alignment: the reconstructed contradiction type\<close>

text \<open>
  C5. \<open>re.findall\<close> returns the text of the capturing group of \<open>YEAR_PATTERN\<close>, the
  century, so a claim of the year 2021 and evidence of the year 2023 have the same set of
  years, and the type is decided by the numbers: QUANTITATIVE_MISMATCH, where the claim
  says TEMPORAL_MISMATCH.
\<close>

theorem years_2021_2023:
  "detect_negation ''Released in 2021'' = False
   \<and> detect_negation ''Released in 2023'' = False
   \<and> extract_years ''Released in 2021'' = [''20'']
   \<and> extract_years ''Released in 2023'' = [''20'']
   \<and> detect_contradiction_type ''Released in 2021'' ''Released in 2023'' False False
       = QUANTITATIVE_MISMATCH"
  by code_simp

section \<open>Chunking a short text\<close>

lemma strip_Nil: "strip [] = []"
  by (simp add: strip_def)

lemma slice_whole: "int (length xs) \<le> b \<Longrightarrow> slice xs 0 b = xs"
  by (simp add: slice_def norm_index_def)

lemma slice_tail: "0 \<le> a \<Longrightarrow> int (length xs) \<le> b \<Longrightarrow> slice xs a b = drop (nat a) xs"
  by (cases "nat a \<le> length xs") (simp_all add: slice_def norm_index_def min_def)

lemma chunk_loop_short:
  assumes "length s < 512" and "s \<noteq> []"
  shows "chunk_loop (Suc (Suc (Suc n))) default_RetrievalConfig s 0 [] =
           Some (if length s \<le> 448 then [strip s]
                 else [strip s, strip (drop 448 s)])"
proof -
  have s1: "slice s 0 512 = s"
    using assms(1) by (intro slice_whole) simp
  have s2: "slice s 448 960 = drop 448 s"
    using assms(1) slice_tail[of 448 s 960] by simp
  show ?thesis
    using assms by (simp add: default_RetrievalConfig_def s1 s2)
qed

lemma chunk_text_short:
  assumes "length s < 512" and "strip s \<noteq> []" and "3 \<le> fuel"
  shows "chunk_text fuel default_RetrievalConfig s =
           Some (if length s \<le> 448 \<or> strip (drop 448 s) = [] then [strip s]
                 else [strip s, strip (drop 448 s)])"
proof -
  from assms(3) obtain n where n: "fuel = Suc (Suc (Suc n))"
    by (metis Suc_le_D numeral_3_eq_3 Suc_le_mono)
  from assms(2) have "s \<noteq> []"
    using strip_Nil by auto
  from chunk_loop_short[OF assms(1) this, of n] show ?thesis
    using assms(2) by (simp add: chunk_text_def n)
qed

lemma strip_a: "strip ''a'' = ''a''"
  by (simp add: strip_def is_space_def code_def)

lemma strip_replicate_a: "strip (replicate n (CHR ''a'')) = replicate n (CHR ''a'')"
  by (simp add: strip_def is_space_def code_def)

text \<open>
  C7, as amended. With the default configuration (chunk_size 512, chunk_overlap 64), for
  every text shorter than 512 characters that is not empty when stripped, the loop ends within
  three rounds and \<open>_chunk_text\<close> returns exactly one chunk when the text has at most 448
  characters or nothing but whitespace from offset 448 on; otherwise it returns exactly two
  chunks, the stripped text and the stripped rest of the text from offset 448.
\<close>

theorem chunk_text_short_text:
  assumes "length s < 512" and "strip s \<noteq> []" and "3 \<le> fuel"
  shows "chunk_text fuel default_RetrievalConfig s =
           Some (if length s \<le> 448 \<or> strip (drop 448 s) = [] then [strip s]
                 else [strip s, strip (drop 448 s)])"
  using assms by (rule chunk_text_short)

theorem chunk_text_short_text_witness:
  "length (replicate 100 (CHR ''a'')) < 512 \<and> strip (replicate 100 (CHR ''a'')) \<noteq> []
   \<and> (3::nat) \<le> 3
   \<and> chunk_text 3 default_RetrievalConfig (replicate 100 (CHR ''a''))
       = Some [replicate 100 (CHR ''a'')]"
  using chunk_text_short_text[of "replicate 100 (CHR ''a'')" 3]
  by (simp add: strip_replicate_a)

text \<open>
  The claim as it stands fails: a text of 449 letters, shorter than \<open>chunk_size\<close>, gives
  two chunks, the second the last letter.
\<close>

theorem chunk_text_short_text_counterexample:
  "length (replicate 449 (CHR ''a'')) < 512 \<and> strip (replicate 449 (CHR ''a'')) \<noteq> []
   \<and> chunk_text 3 default_RetrievalConfig (replicate 449 (CHR ''a''))
       = Some [replicate 449 (CHR ''a''), ''a'']"
proof -
  have "chunk_text 3 default_RetrievalConfig (replicate 449 (CHR ''a''))
          = Some [strip (replicate 449 (CHR ''a'')), strip (drop 448 (replicate 449 (CHR ''a'')))]"
    using chunk_text_short[of "replicate 449 (CHR ''a'')" 3]
    by (simp add: strip_replicate_a strip_a)
  then show ?thesis
    by (simp add: strip_replicate_a strip_a)
qed

section \<open>Retrieval\<close>

lemma similar_chunks_threshold:
  "similar_chunks cfg q rows = Inr cs \<Longrightarrow>
     \<forall>c \<in> set cs. similarity_threshold cfg \<le> similarity_score c"
proof (induction rows arbitrary: cs)
  case Nil
  then show ?case by simp
next
  case (Cons row rows)
  then show ?case
    by (auto simp: mk_EvidenceChunk_def split: sum.splits if_splits)
qed

lemma similar_chunks_returns:
  assumes "0 \<le> similarity_threshold cfg"
    and "\<forall>row \<in> set rows. length (row_embedding row) = length q
           \<and> (similarity_threshold cfg \<le> sum_list (map2 (*) q (row_embedding row))
                \<longrightarrow> sum_list (map2 (*) q (row_embedding row)) \<le> 1
                    \<and> row_text row \<noteq> [] \<and> 0 \<le> row_chunk_index row)"
  shows "\<exists>cs. similar_chunks cfg q rows = Inr cs"
  using assms(2)
proof (induction rows)
  case Nil
  then show ?case by simp
next
  case (Cons row rows)
  then obtain cs where cs: "similar_chunks cfg q rows = Inr cs"
    by auto
  from Cons.prems have "length q = length (row_embedding row)"
    by simp
  then have d: "dot q (row_embedding row) = Inr (sum_list (map2 (*) q (row_embedding row)))"
    by (simp add: dot_def)
  show ?case
    using Cons.prems assms(1) cs
    by (auto simp: d mk_EvidenceChunk_def EvidenceChunk_ok_def unit_range_def)
qed

lemma prefix_to_take: "prefix_to xs k = take (norm_index (length xs) k) xs"
  by (simp add: prefix_to_def slice_def norm_index_def)

lemma length_prefix_to: "0 \<le> k \<Longrightarrow> int (length (prefix_to xs k)) \<le> k"
  by (simp add: prefix_to_take norm_index_def)

lemma sorted_by_similarity:
  "sorted_wrt (\<lambda>a b. similarity_score b \<le> similarity_score a)
     (prefix_to (sort_key (\<lambda>c. - similarity_score c) cs) k)"
proof -
  have "sorted (map (\<lambda>c. - similarity_score c) (sort_key (\<lambda>c. - similarity_score c) cs))"
    by (rule sorted_sort_key)
  then have "sorted_wrt (\<lambda>a b. similarity_score b \<le> similarity_score a)
               (sort_key (\<lambda>c. - similarity_score c) cs)"
    by (simp add: sorted_map)
  then show ?thesis
    unfolding prefix_to_take by (rule sorted_wrt_take)
qed

lemma retrieve_Inr:
  assumes "retrieve cfg embedder rows q k_arg = Inr cs"
  shows "(\<forall>c \<in> set cs. similarity_threshold cfg \<le> similarity_score c)
       \<and> sorted_wrt (\<lambda>a b. similarity_score b \<le> similarity_score a) cs
       \<and> (0 \<le> effective_top_k cfg k_arg \<longrightarrow> int (length cs) \<le> effective_top_k cfg k_arg)"
proof (cases "rows = []")
  case True
  with assms have "cs = []"
    by (simp add: retrieve_def)
  then show ?thesis by simp
next
  case False
  with assms obtain results where
    r: "similar_chunks cfg (embedder q) rows = Inr results" and
    cs: "cs = prefix_to (sort_key (\<lambda>c. - similarity_score c) results) (effective_top_k cfg k_arg)"
    by (auto simp: retrieve_def split: sum.splits)
  have "set cs \<subseteq> set results"
    unfolding cs prefix_to_take using set_take_subset[of _ "sort_key (\<lambda>c. - similarity_score c) results"]
    by simp
  with similar_chunks_threshold[OF r]
  have 1: "\<forall>c \<in> set cs. similarity_threshold cfg \<le> similarity_score c"
    by blast
  have 2: "sorted_wrt (\<lambda>a b. similarity_score b \<le> similarity_score a) cs"
    unfolding cs by (rule sorted_by_similarity)
  have 3: "0 \<le> effective_top_k cfg k_arg \<longrightarrow> int (length cs) \<le> effective_top_k cfg k_arg"
    unfolding cs using length_prefix_to by blast
  from 1 2 3 show ?thesis by blast
qed

lemma similar_chunks_sample:
  "similar_chunks default_RetrievalConfig [1] [row_a, row_b] = Inr [chunk_a, chunk_b]"
  by (simp add: dot_def row_a_def row_b_def chunk_a_def chunk_b_def mk_EvidenceChunk_def
        EvidenceChunk_ok_def unit_range_def default_RetrievalConfig_def)

lemma sort_sample: "similarity_score chunk_b \<le> similarity_score chunk_a"
  by (simp add: chunk_a_def chunk_b_def)

lemma retrieve_sample:
  "retrieve default_RetrievalConfig (\<lambda>q. [1]) [row_a, row_b] ''Python'' k_arg =
     Inr (prefix_to [chunk_a, chunk_b] (effective_top_k default_RetrievalConfig k_arg))"
  by (simp add: retrieve_def similar_chunks_sample sort_sample del: similar_chunks.simps)

lemma default_RetrievalConfig_ok: "RetrievalConfig_ok default_RetrievalConfig"
  by (simp add: RetrievalConfig_ok_def default_RetrievalConfig_def unit_range_def)

lemma effective_top_k_positive:
  assumes "RetrievalConfig_ok cfg" and "case k_arg of None \<Rightarrow> True | Some k \<Rightarrow> 1 \<le> k"
  shows "effective_top_k cfg k_arg = (case k_arg of None \<Rightarrow> top_k cfg | Some k \<Rightarrow> k)"
    and "0 \<le> effective_top_k cfg k_arg"
  using assms by (auto simp: effective_top_k_def RetrievalConfig_ok_def split: option.splits)

text \<open>
  C8. With a valid configuration and a \<open>top_k\<close> argument that is absent or at least 1:
  on an empty store \<open>retrieve\<close> returns the empty list, not an error; every list it
  returns holds only chunks whose \<open>similarity_score\<close> is at least
  \<open>similarity_threshold\<close>, is sorted by \<open>similarity_score\<close>, highest first,
  and has at most \<open>top_k\<close> elements (the argument, or the configured value when
  there is none). It returns a list whenever every stored embedding has the dimension of the
  query embedding and every row whose similarity reaches the threshold has a similarity of at
  most 1, a text that is not empty and an index that is not negative.
\<close>

theorem retrieve_result:
  assumes "RetrievalConfig_ok cfg"
    and "case k_arg of None \<Rightarrow> True | Some k \<Rightarrow> 1 \<le> k"
  shows "(rows = [] \<longrightarrow> retrieve cfg embedder rows q k_arg = Inr [])
   \<and> (retrieve cfg embedder rows q k_arg = Inr cs \<longrightarrow>
        (\<forall>c \<in> set cs. similarity_threshold cfg \<le> similarity_score c)
        \<and> sorted_wrt (\<lambda>a b. similarity_score b \<le> similarity_score a) cs
        \<and> int (length cs) \<le> (case k_arg of None \<Rightarrow> top_k cfg | Some k \<Rightarrow> k))
   \<and> ((\<forall>row \<in> set rows. length (row_embedding row) = length (embedder q)
              \<and> (similarity_threshold cfg \<le> sum_list (map2 (*) (embedder q) (row_embedding row))
                   \<longrightarrow> sum_list (map2 (*) (embedder q) (row_embedding row)) \<le> 1
                       \<and> row_text row \<noteq> [] \<and> 0 \<le> row_chunk_index row))
        \<longrightarrow> (\<exists>found. retrieve cfg embedder rows q k_arg = Inr found))"
proof -
  have t: "0 \<le> similarity_threshold cfg"
    using assms(1) by (simp add: RetrievalConfig_ok_def unit_range_def)
  note k = effective_top_k_positive[OF assms]
  have 1: "rows = [] \<longrightarrow> retrieve cfg embedder rows q k_arg = Inr []"
    by (simp add: retrieve_def)
  have 2: "(\<forall>c \<in> set cs. similarity_threshold cfg \<le> similarity_score c)
        \<and> sorted_wrt (\<lambda>a b. similarity_score b \<le> similarity_score a) cs
        \<and> int (length cs) \<le> (case k_arg of None \<Rightarrow> top_k cfg | Some k \<Rightarrow> k)"
    if "retrieve cfg embedder rows q k_arg = Inr cs"
    using retrieve_Inr[OF that] k by simp
  have 3: "\<exists>found. retrieve cfg embedder rows q k_arg = Inr found"
    if "\<forall>row \<in> set rows. length (row_embedding row) = length (embedder q)
              \<and> (similarity_threshold cfg \<le> sum_list (map2 (*) (embedder q) (row_embedding row))
                   \<longrightarrow> sum_list (map2 (*) (embedder q) (row_embedding row)) \<le> 1
                       \<and> row_text row \<noteq> [] \<and> 0 \<le> row_chunk_index row)"
  proof -
    from similar_chunks_returns[OF t that] obtain results where
      "similar_chunks cfg (embedder q) rows = Inr results"
      by blast
    then show ?thesis
      by (simp add: retrieve_def)
  qed
  from 1 2 3 show ?thesis
    by blast
qed

theorem retrieve_result_witness:
  "RetrievalConfig_ok default_RetrievalConfig
   \<and> retrieve default_RetrievalConfig (\<lambda>q. [1]) [] ''Python'' None = Inr []
   \<and> retrieve default_RetrievalConfig (\<lambda>q. [1]) [row_a, row_b] ''Python'' None
       = Inr [chunk_a, chunk_b]
   \<and> int (length [chunk_a, chunk_b]) \<le> top_k default_RetrievalConfig
   \<and> retrieve default_RetrievalConfig (\<lambda>q. [1]) [row_a, row_b] ''Python'' (Some 1) = Inr [chunk_a]
   \<and> int (length [chunk_a]) \<le> 1
   \<and> similarity_threshold default_RetrievalConfig \<le> similarity_score chunk_a
   \<and> similarity_threshold default_RetrievalConfig \<le> similarity_score chunk_b
   \<and> similarity_score chunk_b \<le> similarity_score chunk_a
   \<and> length (row_embedding row_a) = length [1::real]
   \<and> length (row_embedding row_b) = length [1::real]
   \<and> similarity_threshold default_RetrievalConfig \<le> sum_list (map2 (*) [1] (row_embedding row_a))
   \<and> sum_list (map2 (*) [1] (row_embedding row_a)) \<le> 1
   \<and> similarity_threshold default_RetrievalConfig \<le> sum_list (map2 (*) [1] (row_embedding row_b))
   \<and> sum_list (map2 (*) [1] (row_embedding row_b)) \<le> 1
   \<and> row_text row_a \<noteq> [] \<and> 0 \<le> row_chunk_index row_a
   \<and> row_text row_b \<noteq> [] \<and> 0 \<le> row_chunk_index row_b"
  using retrieve_result[OF default_RetrievalConfig_ok,
          of None "[]" "\<lambda>q. [1]" "''Python''" "[]"]
        retrieve_result[OF default_RetrievalConfig_ok,
          of None "[row_a, row_b]" "\<lambda>q. [1]" "''Python''" "[chunk_a, chunk_b]"]
        retrieve_result[OF default_RetrievalConfig_ok,
          of "Some 1" "[row_a, row_b]" "\<lambda>q. [1]" "''Python''" "[chunk_a]"]
        retrieve_sample[of None] retrieve_sample[of "Some 1"] default_RetrievalConfig_ok
  by (simp add: prefix_to_take norm_index_def effective_top_k_def default_RetrievalConfig_def
        row_a_def row_b_def chunk_a_def chunk_b_def)

section \<open>Span repair\<close>

lemma repair_span_not_found:
  assumes "find_str (lower original) (lower (rc_text c)) = None"
    and "re_search (fuzzy_pattern (take 5 (split (rc_text c)))) original = None"
  shows "repair_span original c =
           (case rc_start c of Some i \<Rightarrow> i | None \<Rightarrow> 0,
            case rc_end c of Some i \<Rightarrow> i | None \<Rightarrow> int (length (rc_text c)))"
  using assms by (simp add: repair_span_def)

lemma validate_span_not_found:
  assumes "find_str (lower original) (lower (rc_text c)) = None"
    and "re_search (fuzzy_pattern (take 5 (split (rc_text c)))) original = None"
    and "rc_start c = Some s"
  shows "validate_span original c =
           c\<lparr>rc_start := Some s,
             rc_end := Some (min (case rc_end c of Some i \<Rightarrow> i | None \<Rightarrow> int (length (rc_text c)))
                                 (int (length original)))\<rparr>"
  using repair_span_not_found[OF assms(1,2)] assms(3) by (simp add: validate_span_def)

lemma to_claim_bad_span:
  assumes "rc_start c = Some s" and "rc_end c = Some e" and "e < s"
  shows "to_claim sha256_hex c = Inl ValidationError"
  using assms by (simp add: to_claim_def Let_def mk_Claim_def Claim_ok_def)

lemma validate_span_fields:
  "rc_text (validate_span original c) = rc_text c"
  "factual (validate_span original c) = factual c"
  by (simp_all add: validate_span_def factual_def split: prod.splits)

text \<open>
  C10, as amended. When the text of an entry of the oracle's reply is found in the input
  neither by the search ignoring case nor by the pattern of its first five words, and its
  start lies behind the end of the input, span repair keeps the start and sets the end to the
  smaller of the reported end (the length of the entry's text when there is none) and the
  length of the input: at most the length of the input, and that length itself only when the
  reported end is not before it. The end is before the start, so the construction of the
  Claim fails, and \<open>extract_with_confidence\<close> raises the validation error instead of
  returning, when the entry is the first of the reply and passes the filters.
\<close>

theorem span_repair_raises:
  assumes "find_str (lower original) (lower (rc_text c)) = None"
    and "re_search (fuzzy_pattern (take 5 (split (rc_text c)))) original = None"
    and "rc_start c = Some s" and "int (length original) < s"
  shows "rc_start (validate_span original c) = Some s
       \<and> rc_end (validate_span original c)
           = Some (min (case rc_end c of Some i \<Rightarrow> i | None \<Rightarrow> int (length (rc_text c)))
                       (int (length original)))
       \<and> min (case rc_end c of Some i \<Rightarrow> i | None \<Rightarrow> int (length (rc_text c)))
              (int (length original)) < s
       \<and> to_claim sha256_hex (validate_span original c) = Inl ValidationError
       \<and> (strip original \<noteq> [] \<and> 0 < max_retries cfg \<and> llm 0 = Inr (Some (c # others))
            \<and> (include_opinions cfg \<or> factual c) \<and> min_claim_length cfg \<le> length (rc_text c)
            \<and> 0 < max_claims cfg
          \<longrightarrow> extract_with_confidence llm cfg sha256_hex original = Inl ValidationError)"
proof -
  define e where "e = min (case rc_end c of Some i \<Rightarrow> i | None \<Rightarrow> int (length (rc_text c)))
                          (int (length original))"
  have v: "validate_span original c = c\<lparr>rc_start := Some s, rc_end := Some e\<rparr>"
    unfolding e_def using assms(1,2,3) by (rule validate_span_not_found)
  have 1: "rc_start (validate_span original c) = Some s"
    by (simp add: v)
  have 2: "rc_end (validate_span original c) = Some e"
    by (simp add: v)
  have 3: "e < s"
    using assms(4) by (simp add: e_def)
  have 5: "to_claim sha256_hex (validate_span original c) = Inl ValidationError"
    using 1 2 3 by (rule to_claim_bad_span)
  have 6: "extract_with_confidence llm cfg sha256_hex original = Inl ValidationError"
    if "strip original \<noteq> []" "0 < max_retries cfg" "llm 0 = Inr (Some (c # others))"
       "include_opinions cfg \<or> factual c" "min_claim_length cfg \<le> length (rc_text c)"
       "0 < max_claims cfg"
  proof -
    from that(2) obtain n where n: "max_retries cfg = Suc n"
      by (cases "max_retries cfg") simp_all
    have r: "complete_with_retries llm (max_retries cfg) 0 ''None'' = Inr (Some (c # others))"
      by (simp add: n that(3))
    have "convert_claims cfg sha256_hex
            (validate_span original c # map (validate_span original) others) []
          = Inl ValidationError"
      using that(4,5,6) 5 by (auto simp: validate_span_fields)
    then show ?thesis
      using that(1) by (simp add: extract_with_confidence_def r validate_spans_def)
  qed
  from 1 2 3 5 6 show ?thesis
    unfolding e_def by blast
qed

lemma stray_claim_text: "rc_text stray_claim = ''Java is slow!!''"
  by (simp add: stray_claim_def)

lemma stray_not_found:
  "find_str (lower ''Python is fast.'') (lower ''Java is slow!!'') = None"
  by code_simp

lemma stray_not_matched:
  "re_search (fuzzy_pattern (take 5 (split ''Java is slow!!''))) ''Python is fast.'' = None"
  by code_simp

lemma input_not_blank: "strip ''Python is fast.'' \<noteq> []"
  by code_simp

theorem span_repair_raises_witness:
  "find_str (lower ''Python is fast.'') (lower (rc_text stray_claim)) = None
   \<and> re_search (fuzzy_pattern (take 5 (split (rc_text stray_claim)))) ''Python is fast.'' = None
   \<and> rc_start stray_claim = Some 100 \<and> int (length ''Python is fast.'') < 100
   \<and> rc_start (validate_span ''Python is fast.'' stray_claim) = Some 100
   \<and> rc_end (validate_span ''Python is fast.'' stray_claim) = Some 15 \<and> (15::int) < 100
   \<and> strip ''Python is fast.'' \<noteq> [] \<and> 0 < max_retries default_ExtractionConfig
   \<and> (include_opinions default_ExtractionConfig \<or> factual stray_claim)
   \<and> min_claim_length default_ExtractionConfig \<le> length (rc_text stray_claim)
   \<and> 0 < max_claims default_ExtractionConfig
   \<and> extract_with_confidence (\<lambda>attempt. Inr (Some [stray_claim])) default_ExtractionConfig
        (\<lambda>content. content) ''Python is fast.'' = Inl ValidationError"
proof -
  have h: "find_str (lower ''Python is fast.'') (lower (rc_text stray_claim)) = None"
          "re_search (fuzzy_pattern (take 5 (split (rc_text stray_claim)))) ''Python is fast.'' = None"
          "rc_start stray_claim = Some 100" "int (length ''Python is fast.'') < 100"
    using stray_not_found stray_not_matched by (simp_all add: stray_claim_text) (simp add: stray_claim_def)
  have f: "factual stray_claim" "rc_end stray_claim = Some 114"
    by (simp_all add: factual_def stray_claim_def)
  from span_repair_raises[OF h, of "\<lambda>content. content" default_ExtractionConfig
         "\<lambda>attempt. Inr (Some [stray_claim])" "[]"]
  show ?thesis
    using h f input_not_blank
    by (auto simp: default_ExtractionConfig_def stray_claim_text)
qed

text \<open>
  The claim as it stands fails: an entry with the reported span (100, 3), its text not in the
  input of 15 characters, is repaired to the end 3, not to the length of the input.
\<close>

theorem span_repair_raises_counterexample:
  "find_str (lower ''Python is fast.'') (lower (rc_text early_end_claim)) = None
   \<and> re_search (fuzzy_pattern (take 5 (split (rc_text early_end_claim)))) ''Python is fast.'' = None
   \<and> rc_start early_end_claim = Some 100 \<and> int (length ''Python is fast.'') < 100
   \<and> rc_start (validate_span ''Python is fast.'' early_end_claim) = Some 100
   \<and> rc_end (validate_span ''Python is fast.'' early_end_claim) = Some 3
   \<and> int (length ''Python is fast.'') = 15"
proof -
  have t: "rc_text early_end_claim = ''Java is slow!!''"
    by (simp add: early_end_claim_def stray_claim_def)
  have h: "find_str (lower ''Python is fast.'') (lower (rc_text early_end_claim)) = None"
          "re_search (fuzzy_pattern (take 5 (split (rc_text early_end_claim)))) ''Python is fast.'' = None"
    using stray_not_found stray_not_matched by (simp_all add: t)
  have s: "rc_start early_end_claim = Some 100" "rc_end early_end_claim = Some 3"
    by (simp_all add: early_end_claim_def stray_claim_def)
  from validate_span_not_found[OF h s(1)] show ?thesis
    using h s by simp
qed


end
